theory Spec2Isabelle
  imports Complex_Main "HOL-Library.Log_Nat"
begin

section \<open>JavaScript numbers\<close>

text \<open>
  The server computes with JavaScript Numbers, that is IEEE-754 binary64 values. A finite
  Number is modelled by its exact value, a \<^typ>\<open>real\<close>; every arithmetic operator of the
  source is the exact operation followed by \<open>fl\<close>, rounding to the nearest binary64 value
  (53 significant bits, ties to even). The exponent range is not modelled: the values of
  this program stay far inside it, and NaN and the infinities do not arise from JSON input.
\<close>

definition ilog2 :: "real \<Rightarrow> int" where
  \<comment> \<open>\<open>\<lfloor>log\<^sub>2 x\<rfloor>\<close> for \<open>0 < x\<close>, computed on integers\<close>
  "ilog2 x = (if 1 \<le> x then bitlen \<lfloor>x\<rfloor> - 1 else - bitlen (\<lceil>1 / x\<rceil> - 1))"

definition rne :: "real \<Rightarrow> int" where
  \<comment> \<open>round to the nearest integer, ties to the even one\<close>
  "rne y = (let f = \<lfloor>y\<rfloor>; d = y - of_int f in
            if d < 1 / 2 then f else if 1 / 2 < d then f + 1
            else if even f then f else f + 1)"

definition fl :: "real \<Rightarrow> real" where
  "fl x = (if x = 0 then 0 else
           let s = 2 powi (ilog2 \<bar>x\<bar> - 52) in of_int (rne (x / s)) * s)"

text \<open>
  \<open>Number.prototype.toFixed(2)\<close> yields a decimal string with two fraction digits; the
  string is held as its number of hundredths. ECMAScript picks the integer \<open>n\<close> with
  \<open>n / 100\<close> nearest to the exact value, the larger one on a tie, after taking the sign off
  (below \<open>10\<^sup>2\<^sup>1\<close>; beyond it \<open>toFixed\<close> switches to exponent notation, which no balance of
  this program reaches). \<open>parseFloat\<close> of such a string is the binary64 value nearest to it.
\<close>

type_synonym fixed2 = int

definition toFixed2 :: "real \<Rightarrow> fixed2" where
  "toFixed2 x = (if x < 0 then - \<lfloor>100 * (- x) + 1 / 2\<rfloor> else \<lfloor>100 * x + 1 / 2\<rfloor>)"

definition parseFloat :: "fixed2 \<Rightarrow> real" where
  "parseFloat n = fl (of_int n / 100)"

text \<open>A value that is a whole number of hundredths: an exact two-decimal amount.\<close>

definition exact_decimal2 :: "real \<Rightarrow> bool" where
  "exact_decimal2 x = (of_int \<lfloor>100 * x\<rfloor> = 100 * x)"

text \<open>
  \<open>Number.prototype.toString\<close> on an integral value, and \<open>parseInt\<close> with no radix: leading
  white space is skipped, then comes an optional sign, then either \<open>0x\<close> or \<open>0X\<close> and the
  longest prefix of hexadecimal digits, or the longest prefix of decimal digits; with no
  digit the result is NaN, here \<open>None\<close>. A string is a list of code units below 256, so of
  the white space of ECMAScript the tab, the four line and page controls, the space and the
  no-break space occur. The result is the integer read, which is also the Number returned as
  long as it stays below \<open>2\<^sup>5\<^sup>3\<close>. The first argument of \<open>digits_of\<close> bounds the number of
  digits; \<open>int_toString\<close> passes a bound that no number reaches.
\<close>

definition digit_char :: "nat \<Rightarrow> char" where
  "digit_char d = ''0123456789'' ! d"

fun digits_of :: "nat \<Rightarrow> nat \<Rightarrow> string" where
  "digits_of 0 n = []"
| "digits_of (Suc k) n =
     (if n < 10 then [digit_char n] else digits_of k (n div 10) @ [digit_char (n mod 10)])"

definition int_toString :: "int \<Rightarrow> string" where
  "int_toString i =
     (if i < 0 then CHR ''-'' # digits_of (Suc (nat (- i))) (nat (- i))
      else digits_of (Suc (nat i)) (nat i))"

definition is_digit :: "char \<Rightarrow> bool" where
  "is_digit c = ((48::nat) \<le> of_char c \<and> (of_char c :: nat) \<le> 57)"

definition digits_value :: "string \<Rightarrow> nat" where
  "digits_value cs = foldl (\<lambda>acc c. 10 * acc + ((of_char c :: nat) - 48)) 0 cs"

definition parse_digits :: "string \<Rightarrow> nat option" where
  "parse_digits cs =
     (let ds = takeWhile is_digit cs in if ds = [] then None else Some (digits_value ds))"

definition is_space :: "char \<Rightarrow> bool" where
  "is_space c = (((9::nat) \<le> of_char c \<and> (of_char c :: nat) \<le> 13)
                 \<or> (of_char c :: nat) = 32 \<or> (of_char c :: nat) = 160)"

definition hex_digit :: "char \<Rightarrow> nat option" where
  "hex_digit c =
     (if (48::nat) \<le> of_char c \<and> (of_char c :: nat) \<le> 57 then Some (of_char c - 48)
      else if (97::nat) \<le> of_char c \<and> (of_char c :: nat) \<le> 102 then Some (of_char c - 87)
      else if (65::nat) \<le> of_char c \<and> (of_char c :: nat) \<le> 70 then Some (of_char c - 55)
      else None)"

definition parse_hex :: "string \<Rightarrow> nat option" where
  "parse_hex cs =
     (let ds = takeWhile (\<lambda>c. hex_digit c \<noteq> None) cs
      in if ds = [] then None
         else Some (foldl (\<lambda>acc c. case hex_digit c of None \<Rightarrow> acc | Some d \<Rightarrow> 16 * acc + d)
                      0 ds))"

definition parse_magnitude :: "string \<Rightarrow> nat option" where
  "parse_magnitude cs =
     (case cs of
        c1 # c2 # rest \<Rightarrow>
          if c1 = CHR ''0'' \<and> (c2 = CHR ''x'' \<or> c2 = CHR ''X'') then parse_hex rest
          else parse_digits cs
      | _ \<Rightarrow> parse_digits cs)"

definition parseInt :: "string \<Rightarrow> int option" where
  "parseInt str =
     (case dropWhile is_space str of
        [] \<Rightarrow> None
      | c # cs \<Rightarrow>
          if c = CHR ''-'' then map_option (\<lambda>n. - int n) (parse_magnitude cs)
          else if c = CHR ''+'' then map_option int (parse_magnitude cs)
          else map_option int (parse_magnitude (c # cs)))"

section \<open>The ledger store (server/storage.ts)\<close>

record user =
  u_id :: string
  u_username :: string
  u_isOwner :: bool
  u_credits :: real
  u_isActive :: bool

record uid_doc =
  d_id :: string
  d_userId :: string
  d_apiKeyId :: "string option"
  d_uidValue :: string
  d_duration :: real
  d_cost :: real
  d_status :: string
  d_createdAt :: int
  d_expiresAt :: int

text \<open>
  The details of an activity entry are template strings of the source; they are kept as the
  template's name with its arguments.
\<close>

datatype details =
    CreatedUid string real fixed2
  | DeletedUid string string
  | UpdatedStatus string string
  | UpdatedValue string string
  | CreditChanged string fixed2 string
  | DeletedViaApi string
  | RenewedViaApi string real

record activity_log =
  a_userId :: string
  a_action :: string
  a_details :: details
  a_createdAt :: int

record settings_row =
  baseUrl :: string
  apiKey :: string

record db =
  users :: "user list"
  uids :: "uid_doc list"
  logs :: "activity_log list"
  settings :: "settings_row option"

text \<open>
  What a request reads from its environment: \<open>Date.now()\<close> in the handler, the clock read
  by the store when it inserts a document, and the identifier MongoDB gives a new document.
\<close>

record env =
  now :: int
  stamp :: int
  newId :: string

fun update_first :: "('a \<Rightarrow> bool) \<Rightarrow> ('a \<Rightarrow> 'a) \<Rightarrow> 'a list \<Rightarrow> 'a list" where
  "update_first P f [] = []"
| "update_first P f (x # xs) = (if P x then f x # xs else x # update_first P f xs)"

fun delete_first :: "('a \<Rightarrow> bool) \<Rightarrow> 'a list \<Rightarrow> 'a list" where
  "delete_first P [] = []"
| "delete_first P (x # xs) = (if P x then xs else x # delete_first P xs)"

text \<open>
  \<open>getUser\<close> hands the balance over as \<open>credits.toString()\<close> and every caller reads it
  back with \<open>parseFloat\<close>; the round trip returns the stored Number, so the model passes the
  Number itself. A database failure is outside the model, and so is an identifier that
  MongoDB cannot cast to an ObjectId (the lookup throws and the route answers with an error
  before it writes anything); the validation that Mongoose runs before an insert is inside
  it, see \<open>UidModel_create\<close> below. \<open>findByIdAndUpdate\<close> and
  \<open>findByIdAndDelete\<close> act on the one document with the identifier, here the first one in
  the collection; they run no validator.
\<close>

definition getUser :: "db \<Rightarrow> string \<Rightarrow> user option" where
  "getUser s i = find (\<lambda>u. u_id u = i) (users s)"

definition updateUserCredits :: "db \<Rightarrow> string \<Rightarrow> fixed2 \<Rightarrow> db" where
  "updateUserCredits s userId newCredits =
     s\<lparr>users := update_first (\<lambda>u. u_id u = userId)
                   (\<lambda>u. u\<lparr>u_credits := parseFloat newCredits\<rparr>) (users s)\<rparr>"

text \<open>
  \<open>UidModel.create\<close> validates the fields it is given against \<open>UidSchema\<close>
  (\<open>mongodb-models\<close>, held in the second part of \<open>server/db-init.ts\<close>) before it inserts:
  \<open>userId\<close>, \<open>uidValue\<close>, \<open>planId\<close>, \<open>duration\<close>, \<open>cost\<close> and \<open>expiresAt\<close> are required,
  \<open>region\<close> has a default and \<open>status\<close> is one of three words. A required path that is
  missing makes \<open>create\<close> throw a \<open>ValidationError\<close> and nothing is inserted. Of the paths
  that \<open>storage.createUid\<close> passes, all but \<open>planId\<close> are present with a value of the right
  kind whenever the route gets this far (the user id is the id of a user of the store, the
  UID value has 6 to 12 characters, \<open>status\<close> is \<open>active\<close>), so the model checks \<open>planId\<close>.
  The UID record of the model keeps the fields that the modelled handlers read; \<open>planId\<close>
  and \<open>region\<close> are not among them.
\<close>

record uid_fields =
  f_userId :: string
  f_uidValue :: string
  f_planId :: "real option"
  f_duration :: real
  f_cost :: real
  f_status :: string
  f_createdAt :: int
  f_expiresAt :: int

definition UidModel_create :: "env \<Rightarrow> db \<Rightarrow> uid_fields \<Rightarrow> string + (uid_doc \<times> db)" where
  "UidModel_create e s f =
     (case f_planId f of
        None \<Rightarrow> Inl ''Uid validation failed: planId: Path `planId` is required.''
      | Some p \<Rightarrow>
          let doc = \<lparr>d_id = newId e, d_userId = f_userId f, d_apiKeyId = None,
                     d_uidValue = f_uidValue f, d_duration = f_duration f,
                     d_cost = f_cost f, d_status = f_status f,
                     d_createdAt = f_createdAt f, d_expiresAt = f_expiresAt f\<rparr>
          in Inr (doc, s\<lparr>uids := uids s @ [doc]\<rparr>))"

text \<open>
  \<open>storage.createUid\<close> is handed the parsed body together with \<open>planId\<close>, \<open>cost\<close> and
  \<open>expiresAt\<close>. It passes \<open>userId\<close>, \<open>uidValue\<close>, \<open>duration\<close>, \<open>cost\<close>, \<open>status\<close>,
  \<open>createdAt\<close> and \<open>expiresAt\<close> on to \<open>UidModel.create\<close>, and no \<open>planId\<close>.
\<close>

record createUid_input =
  c_userId :: string
  c_uidValue :: string
  c_duration :: real
  c_planId :: string
  c_cost :: fixed2
  c_expiresAt :: int

definition createUid :: "env \<Rightarrow> db \<Rightarrow> createUid_input \<Rightarrow> string + (uid_doc \<times> db)" where
  "createUid e s c =
     UidModel_create e s
       \<lparr>f_userId = c_userId c, f_uidValue = c_uidValue c, f_planId = None,
        f_duration = c_duration c, f_cost = parseFloat (c_cost c), f_status = ''active'',
        f_createdAt = stamp e, f_expiresAt = c_expiresAt c\<rparr>"

definition getUid :: "db \<Rightarrow> string \<Rightarrow> uid_doc option" where
  "getUid s uidId = find (\<lambda>d. d_id d = uidId) (uids s)"

definition getUserUids :: "db \<Rightarrow> string \<Rightarrow> uid_doc list" where
  \<comment> \<open>newest first; MongoDB leaves the order of equal keys open\<close>
  "getUserUids s userId = rev (sort_key d_createdAt (filter (\<lambda>d. d_userId d = userId) (uids s)))"

definition deleteUid :: "db \<Rightarrow> string \<Rightarrow> db" where
  "deleteUid s uidId = s\<lparr>uids := delete_first (\<lambda>d. d_id d = uidId) (uids s)\<rparr>"

definition updateUid :: "db \<Rightarrow> string \<Rightarrow> string \<Rightarrow> db" where
  "updateUid s uidId st =
     s\<lparr>uids := update_first (\<lambda>d. d_id d = uidId) (\<lambda>d. d\<lparr>d_status := st\<rparr>) (uids s)\<rparr>"

definition updateUidValue :: "db \<Rightarrow> string \<Rightarrow> string \<Rightarrow> db" where
  "updateUidValue s uidId newUidValue =
     s\<lparr>uids := update_first (\<lambda>d. d_id d = uidId) (\<lambda>d. d\<lparr>d_uidValue := newUidValue\<rparr>) (uids s)\<rparr>"

definition logActivity :: "env \<Rightarrow> db \<Rightarrow> string \<Rightarrow> string \<Rightarrow> details \<Rightarrow> db" where
  "logActivity e s userId action dt =
     s\<lparr>logs := logs s @ [\<lparr>a_userId = userId, a_action = action, a_details = dt,
                           a_createdAt = stamp e\<rparr>]\<rparr>"

definition getSettings :: "db \<Rightarrow> settings_row option" where
  "getSettings s = settings s"

section \<open>The external bypass service client (server/api-client.ts)\<close>

text \<open>
  The remote service is a parameter: given the calls already made and the next call, it
  either makes \<open>request\<close> throw a \<open>UIDBypassError\<close> (\<open>Inl\<close> with the message: a rejection,
  a timeout, an unreadable body) or return the decoded JSON body. Of a body the handlers only
  look at whether it is \<open>null\<close> and at \<open>data.plan.id\<close>, which \<open>ApiObj\<close> carries as a string
  when it is there and truthy. Every call is appended to a trace.
\<close>

datatype ext_call =
    Add_uid_api string "int option" string
  | Add_uid_free_api string string
  | Remove_uid_api string
  | List_uids_api
  | Renew_uid_api string real

datatype api_result = ApiNull | ApiObj "string option"

type_synonym service = "ext_call list \<Rightarrow> ext_call \<Rightarrow> string + api_result"

definition request :: "service \<Rightarrow> ext_call list \<Rightarrow> ext_call \<Rightarrow> (string + api_result) \<times> ext_call list" where
  "request svc calls c = (svc calls c, calls @ [c])"

definition UIDBypassClient_create :: "db \<Rightarrow> string + settings_row" where
  "UIDBypassClient_create s =
     (case getSettings s of
        None \<Rightarrow> Inl ''API settings not configured. Please configure in Settings page.''
      | Some st \<Rightarrow>
          if baseUrl st = [] \<or> apiKey st = []
          then Inl ''API settings not configured. Please configure in Settings page.''
          else Inr st)"

definition createUID :: "service \<Rightarrow> ext_call list \<Rightarrow> string \<Rightarrow> string \<Rightarrow> (string + api_result) \<times> ext_call list" where
  "createUID svc calls uid duration =
     (let durationInDays = map_option (\<lambda>n. \<lceil>fl (of_int n / 24)\<rceil>) (parseInt duration)
      in request svc calls (Add_uid_api uid durationInDays ''PK''))"

definition deleteUID :: "service \<Rightarrow> ext_call list \<Rightarrow> string \<Rightarrow> (string + api_result) \<times> ext_call list" where
  "deleteUID svc calls uid = request svc calls (Remove_uid_api uid)"

text \<open>
  The repository holds the client class twice. \<open>routes.ts\<close> imports \<open>./api-client\<close> and calls
  \<open>createUID\<close> with the duration as a string, which is the method of \<open>server/api-client.ts\<close>
  above. The rename route calls \<open>updateUID\<close>, a method that \<open>server/api-client.ts\<close> does not
  have: with the class that \<open>routes.ts\<close> imports, the call throws a \<open>TypeError\<close>. Only the
  second copy of the class (\<open>src/unnamed/part_004\<close>) has \<open>updateUID\<close>, together with the
  \<open>createUIDFree\<close> it is built from; the two methods below are the ones of that copy, and
  so is the second \<open>create\<close>, whose message differs.
\<close>

datatype client_copy =
    Imported_copy   \<comment> \<open>\<open>server/api-client.ts\<close>, the class that \<open>routes.ts\<close> imports\<close>
  | Second_copy     \<comment> \<open>\<open>src/unnamed/part_004\<close>\<close>

definition UIDBypassClient_create_second :: "db \<Rightarrow> string + settings_row" where
  "UIDBypassClient_create_second s =
     (case getSettings s of
        None \<Rightarrow>
          Inl ''API configuration not found. Please configure Base URL and API Key in Settings.''
      | Some st \<Rightarrow>
          if baseUrl st = [] \<or> apiKey st = []
          then Inl ''API configuration not found. Please configure Base URL and API Key in Settings.''
          else Inr st)"

definition createUIDFree :: "service \<Rightarrow> ext_call list \<Rightarrow> string \<Rightarrow> (string + api_result) \<times> ext_call list" where
  "createUIDFree svc calls uid = request svc calls (Add_uid_free_api uid ''PK'')"

definition updateUID :: "service \<Rightarrow> ext_call list \<Rightarrow> string \<Rightarrow> string \<Rightarrow> (string + api_result) \<times> ext_call list" where
  "updateUID svc calls oldUid newUid =
     (case deleteUID svc calls oldUid of
        (Inl err, calls1) \<Rightarrow> (Inl err, calls1)
      | (Inr _, calls1) \<Rightarrow> createUIDFree svc calls1 newUid)"

section \<open>The dashboard routes (server/routes.ts)\<close>

text \<open>
  The routes below are registered behind \<open>requireAuth\<close>: a handler runs with a session that
  carries a user id and the owner flag. A handler takes the store and returns the response,
  the store after the request and the calls it made to the external service, in order.
  \<open>pricingTiers[duration]\<close> finds a price when the number is one of the five keys.
  When \<open>createUID\<close> returns \<open>null\<close>, reading \<open>apiResult.data\<close> throws a \<open>TypeError\<close>, which the
  outer \<open>catch\<close> answers with status 400; the \<open>ValidationError\<close> of \<open>storage.createUid\<close> is no
  \<open>UIDBypassError\<close> either and takes the same way, after the external call has been made and
  before the balance is touched.
\<close>

record session =
  s_userId :: string
  s_isOwner :: bool

datatype body =
    Error string
  | ErrorDetails string string
  | Created uid_doc fixed2 api_result
  | UidList "uid_doc list"
  | Success
  | ValueUpdated string string
  | CreditsUpdated fixed2
  | ApiRemoved uid_doc
  | ApiRenewed uid_doc int int real

record response =
  status :: nat
  body :: body

type_synonym outcome = "response \<times> db \<times> ext_call list"

definition reply :: "nat \<Rightarrow> body \<Rightarrow> db \<Rightarrow> ext_call list \<Rightarrow> outcome" where
  "reply code b s calls = (\<lparr>status = code, body = b\<rparr>, s, calls)"

text \<open>
  The body of \<open>POST /api/uids\<close>. A body whose fields have the wrong JSON type is refused by
  the schema like one whose values are out of range; the record holds well-typed fields,
  with the \<open>cost\<close> a client may add.
\<close>

record uid_request =
  r_userId :: string
  r_uidValue :: string
  r_duration :: real
  r_cost :: "real option"

record insertUid =
  i_userId :: string
  i_uidValue :: string
  i_duration :: real

definition insertUidSchema_parse :: "uid_request \<Rightarrow> string + insertUid" where
  "insertUidSchema_parse r =
     (if length (r_uidValue r) < 6 then Inl ''UID must be at least 6 characters''
      else if 12 < length (r_uidValue r) then Inl ''UID must be at most 12 characters''
      else if \<not> 0 < r_duration r then Inl ''Number must be greater than 0''
      else Inr \<lparr>i_userId = r_userId r, i_uidValue = r_uidValue r, i_duration = r_duration r\<rparr>)"

definition pricingTiers :: "real \<Rightarrow> real option" where
  "pricingTiers d =
     (if d = 24 then Some (fl (50 / 100))
      else if d = 72 then Some (fl (130 / 100))
      else if d = 168 then Some (fl (233 / 100))
      else if d = 336 then Some (fl (350 / 100))
      else if d = 720 then Some (fl (520 / 100))
      else None)"

text \<open>
  The tier table as the specification gives it, the prices in hundredths of a credit.
\<close>

definition tier_price :: "real \<Rightarrow> fixed2 option" where
  "tier_price d =
     (if d = 24 then Some 50
      else if d = 72 then Some 130
      else if d = 168 then Some 233
      else if d = 336 then Some 350
      else if d = 720 then Some 520
      else None)"

definition post_api_uids :: "env \<Rightarrow> service \<Rightarrow> session \<Rightarrow> uid_request \<Rightarrow> db \<Rightarrow> outcome" where
  "post_api_uids e svc sess req s =
     (case insertUidSchema_parse req of
        Inl msg \<Rightarrow> reply 400 (Error msg) s []
      | Inr uidData \<Rightarrow>
          if \<not> s_isOwner sess \<and> i_userId uidData \<noteq> s_userId sess
          then reply 403 (Error ''Can only create UIDs for your own account'') s []
          else
            (case pricingTiers (i_duration uidData) of
               None \<Rightarrow> reply 400 (Error ''Invalid duration selected'') s []
             | Some cost \<Rightarrow>
                 if cost = 0 then reply 400 (Error ''Invalid duration selected'') s []
                 else
                   (case getUser s (i_userId uidData) of
                      None \<Rightarrow> reply 404 (Error ''User not found'') s []
                    | Some usr \<Rightarrow>
                        let currentCredits = u_credits usr in
                        if currentCredits < cost
                        then reply 400 (Error ''Insufficient credits'') s []
                        else
                          (case UIDBypassClient_create s of
                             Inl msg \<Rightarrow> reply 400 (Error (''API Error: '' @ msg)) s []
                           | Inr apiClient \<Rightarrow>
                               (case createUID svc [] (i_uidValue uidData)
                                       (int_toString \<lfloor>i_duration uidData\<rfloor>) of
                                  (Inl msg, calls) \<Rightarrow>
                                    reply 400 (Error (''API Error: '' @ msg)) s calls
                                | (Inr ApiNull, calls) \<Rightarrow>
                                    reply 400 (Error ''Cannot read properties of null'') s calls
                                | (Inr (ApiObj plan), calls) \<Rightarrow>
                                    let expiresAt =
                                          \<lfloor>fl (of_int (now e) + fl (i_duration uidData * 3600000))\<rfloor>;
                                        planId =
                                          (case plan of
                                             Some p \<Rightarrow> p
                                           | None \<Rightarrow> int_toString \<lceil>fl (i_duration uidData / 24)\<rceil>)
                                    in
                                    (case createUid e s
                                            \<lparr>c_userId = i_userId uidData,
                                             c_uidValue = i_uidValue uidData,
                                             c_duration = i_duration uidData,
                                             c_planId = planId,
                                             c_cost = toFixed2 cost,
                                             c_expiresAt = expiresAt\<rparr> of
                                       Inl msg \<Rightarrow> reply 400 (Error msg) s calls
                                     | Inr (uid, s1) \<Rightarrow>
                                         let newCredits = fl (currentCredits - cost);
                                             s2 = updateUserCredits s1 (i_userId uidData)
                                                    (toFixed2 newCredits);
                                             s3 = logActivity e s2 (i_userId uidData) ''create_uid''
                                                    (CreatedUid (i_uidValue uidData)
                                                       (i_duration uidData) (toFixed2 cost))
                                         in reply 200 (Created uid (toFixed2 newCredits) (ApiObj plan))
                                              s3 calls))))))"

definition get_api_uids_user :: "session \<Rightarrow> string \<Rightarrow> db \<Rightarrow> outcome" where
  "get_api_uids_user sess userId s =
     (if \<not> s_isOwner sess \<and> userId \<noteq> s_userId sess
      then reply 403 (Error ''Can only view your own UIDs'') s []
      else reply 200 (UidList (getUserUids s userId)) s [])"

definition delete_api_uids :: "env \<Rightarrow> service \<Rightarrow> session \<Rightarrow> string \<Rightarrow> db \<Rightarrow> outcome" where
  "delete_api_uids e svc sess uidId s =
     (case getUid s uidId of
        None \<Rightarrow> reply 404 (Error ''UID not found'') s []
      | Some uid \<Rightarrow>
          if \<not> s_isOwner sess \<and> d_userId uid \<noteq> s_userId sess
          then reply 403 (Error ''Can only delete your own UIDs'') s []
          else
            (case UIDBypassClient_create s of
               Inl msg \<Rightarrow>
                 reply 500 (ErrorDetails ''Failed to delete UID from external service'' msg) s []
             | Inr apiClient \<Rightarrow>
                 (case deleteUID svc [] (d_uidValue uid) of
                    (Inl msg, calls) \<Rightarrow>
                      reply 500 (ErrorDetails ''Failed to delete UID from external service'' msg) s calls
                  | (Inr result, calls) \<Rightarrow>
                      let s1 = deleteUid s uidId;
                          s2 = logActivity e s1 (s_userId sess) ''delete_uid''
                                 (DeletedUid (d_uidValue uid) (d_userId uid))
                      in reply 200 Success s2 calls)))"

definition patch_api_uids :: "env \<Rightarrow> session \<Rightarrow> string \<Rightarrow> string \<Rightarrow> db \<Rightarrow> outcome" where
  "patch_api_uids e sess uidId st s =
     (let allUids = getUserUids s (s_userId sess);
          uid = find (\<lambda>u. d_id u = uidId) allUids
      in if uid = None \<and> \<not> s_isOwner sess
         then reply 403 (Error ''Can only update your own UIDs'') s []
         else
           let s1 = updateUid s uidId st;
               s2 = (case uid of
                       None \<Rightarrow> s1
                     | Some u \<Rightarrow> logActivity e s1 (d_userId u) ''update_uid''
                                   (UpdatedStatus (d_uidValue u) st))
           in reply 200 Success s2 [])"

definition updateUidValueSchema_parse :: "string \<Rightarrow> string + string" where
  "updateUidValueSchema_parse v =
     (if length v < 6 then Inl ''UID must be at least 6 characters''
      else if 12 < length v then Inl ''UID must be at most 12 characters''
      else Inr v)"

text \<open>
  \<open>PATCH /api/uids/:id/value\<close>. The first argument says which copy of the client class the
  route is linked with. With \<open>server/api-client.ts\<close>, the one that \<open>routes.ts\<close> imports,
  \<open>apiClient.updateUID\<close> is undefined and calling it throws a \<open>TypeError\<close> inside the \<open>try\<close>:
  the route answers 400 with the details \<open>Unknown error\<close>, having made no external call.
  With the second copy the composite \<open>updateUID\<close> runs.
\<close>

definition patch_api_uids_value ::
  "client_copy \<Rightarrow> env \<Rightarrow> service \<Rightarrow> session \<Rightarrow> string \<Rightarrow> string \<Rightarrow> db \<Rightarrow> outcome" where
  "patch_api_uids_value cls e svc sess uidId v s =
     (case updateUidValueSchema_parse v of
        Inl msg \<Rightarrow> reply 400 (Error msg) s []
      | Inr newUidValue \<Rightarrow>
          (case getUid s uidId of
             None \<Rightarrow> reply 404 (Error ''UID not found'') s []
           | Some uid \<Rightarrow>
               if \<not> s_isOwner sess \<and> d_userId uid \<noteq> s_userId sess
               then reply 403 (Error ''Can only update your own UIDs'') s []
               else
                 let oldUidValue = d_uidValue uid in
                 (case cls of
                    Imported_copy \<Rightarrow>
                      (case UIDBypassClient_create s of
                         Inl msg \<Rightarrow>
                           reply 400 (ErrorDetails ''Failed to update UID on external service'' msg)
                             s []
                       | Inr apiClient \<Rightarrow>
                           reply 400 (ErrorDetails ''Failed to update UID on external service''
                                        ''Unknown error'') s [])
                  | Second_copy \<Rightarrow>
                      (case UIDBypassClient_create_second s of
                         Inl msg \<Rightarrow>
                           reply 400 (ErrorDetails ''Failed to update UID on external service'' msg)
                             s []
                       | Inr apiClient \<Rightarrow>
                           (case updateUID svc [] oldUidValue newUidValue of
                              (Inl msg, calls) \<Rightarrow>
                                reply 400 (ErrorDetails ''Failed to update UID on external service''
                                             msg) s calls
                            | (Inr result, calls) \<Rightarrow>
                                let s1 = updateUidValue s uidId newUidValue;
                                    s2 = logActivity e s1 (s_userId sess) ''update_uid_value''
                                           (UpdatedValue oldUidValue newUidValue)
                                in reply 200 (ValueUpdated oldUidValue newUidValue) s2 calls)))))"

text \<open>
  \<open>PATCH /api/users/:id/credits\<close>, registered behind the owner check; the body has passed
  \<open>updateCreditSchema\<close>, so the operation is one of the two and the amount is a number.
\<close>

datatype credit_operation = Add | Deduct

definition patch_api_users_credits ::
  "env \<Rightarrow> session \<Rightarrow> string \<Rightarrow> real \<Rightarrow> credit_operation \<Rightarrow> db \<Rightarrow> outcome" where
  "patch_api_users_credits e sess userId amount operation s =
     (case getUser s userId of
        None \<Rightarrow> reply 404 (Error ''User not found'') s []
      | Some usr \<Rightarrow>
          let currentCredits = u_credits usr;
              newCredits = (if operation = Add then fl (currentCredits + amount)
                            else fl (currentCredits - amount))
          in if operation = Deduct \<and> newCredits < 0
             then reply 400 (Error ''Insufficient credits'') s []
             else
               let s1 = updateUserCredits s userId (toFixed2 newCredits);
                   s2 = logActivity e s1 (s_userId sess)
                          (if operation = Add then ''credit_add'' else ''credit_deduct'')
                          (CreditChanged (if operation = Add then ''Added'' else ''Deducted'')
                             (toFixed2 amount) (u_username usr))
               in reply 200 (CreditsUpdated (toFixed2 newCredits)) s2 [])"

section \<open>The external-facing API (server/api-handler.ts)\<close>

text \<open>
  The handlers run after \<open>verifyApiKey\<close> has attached the API key document and its user to
  the request. A body field is absent (\<open>None\<close>) or present; an empty string is falsy.
\<close>

record api_key_doc =
  k_id :: string
  k_userId :: string

definition truthy :: "string option \<Rightarrow> bool" where
  "truthy x = (case x of None \<Rightarrow> False | Some v \<Rightarrow> v \<noteq> [])"

definition findOne_uid :: "db \<Rightarrow> api_key_doc \<Rightarrow> string option \<Rightarrow> string option \<Rightarrow> uid_doc option" where
  "findOne_uid s k uid_id uid =
     (if truthy uid_id
      then find (\<lambda>d. Some (d_id d) = uid_id \<and> d_apiKeyId d = Some (k_id k)) (uids s)
      else find (\<lambda>d. Some (d_uidValue d) = uid \<and> d_apiKeyId d = Some (k_id k)) (uids s))"

definition save_uid :: "db \<Rightarrow> uid_doc \<Rightarrow> db" where
  \<comment> \<open>\<open>uidDoc.save()\<close>: the document with this identifier takes the new field values\<close>
  "save_uid s doc = s\<lparr>uids := update_first (\<lambda>d. d_id d = d_id doc) (\<lambda>d. doc) (uids s)\<rparr>"

definition handleRemoveUid ::
  "env \<Rightarrow> api_key_doc \<Rightarrow> string option \<Rightarrow> string option \<Rightarrow> db \<Rightarrow> outcome" where
  "handleRemoveUid e k uid_id uid s =
     (if \<not> truthy uid_id \<and> \<not> truthy uid
      then reply 400 (Error ''Either uid_id or uid is required'') s []
      else
        (case findOne_uid s k uid_id uid of
           None \<Rightarrow> reply 404 (Error ''UID not found or not created by this API key'') s []
         | Some uidDoc \<Rightarrow>
             let uidDoc1 = uidDoc\<lparr>d_status := ''deleted''\<rparr>;
                 s1 = save_uid s uidDoc1;
                 s2 = logActivity e s1 (k_userId k) ''delete_uid_api''
                        (DeletedViaApi (d_uidValue uidDoc1))
             in reply 200 (ApiRemoved uidDoc1) s2 []))"

text \<open>
  \<open>Date.prototype.getDate\<close> and \<open>setDate\<close> on a time value in milliseconds, with the
  server's zone taken as UTC. \<open>DateFromTime\<close> is the day of the month of the proleptic
  Gregorian calendar; \<open>setDate\<close> keeps the year, the month and the time within the day and
  replaces the day of the month by its argument cut to an integer (\<open>MakeDay\<close>).
\<close>

definition msPerDay :: int where
  "msPerDay = 86400000"

definition DateFromTime :: "int \<Rightarrow> int" where
  "DateFromTime t =
     (let z = t div msPerDay + 719468;
          doe = z mod 146097;
          yoe = (doe - doe div 1460 + doe div 36524 - doe div 146096) div 365;
          doy = doe - (365 * yoe + yoe div 4 - yoe div 100);
          mp = (5 * doy + 2) div 153
      in doy - (153 * mp + 2) div 5 + 1)"

definition trunc :: "real \<Rightarrow> int" where
  "trunc x = (if x < 0 then \<lceil>x\<rceil> else \<lfloor>x\<rfloor>)"

definition setDate :: "int \<Rightarrow> real \<Rightarrow> int" where
  "setDate t dt = (t div msPerDay - DateFromTime t + trunc dt) * msPerDay + t mod msPerDay"

definition handleRenewUid ::
  "env \<Rightarrow> api_key_doc \<Rightarrow> string option \<Rightarrow> string option \<Rightarrow> real option \<Rightarrow> db \<Rightarrow> outcome" where
  "handleRenewUid e k uid_id uid days_opt s =
     (if \<not> truthy uid_id \<and> \<not> truthy uid
      then reply 400 (Error ''Either uid_id or uid is required'') s []
      else
        (case days_opt of
           None \<Rightarrow> reply 400 (Error ''Days must be a positive number'') s []
         | Some days \<Rightarrow>
             if days = 0 \<or> days \<le> 0
             then reply 400 (Error ''Days must be a positive number'') s []
             else
               (case findOne_uid s k uid_id uid of
                  None \<Rightarrow> reply 404 (Error ''UID not found or not created by this API key'') s []
                | Some uidDoc \<Rightarrow>
                    let oldExpireDate = d_expiresAt uidDoc;
                        newExpireDate =
                          setDate (d_expiresAt uidDoc)
                            (fl (of_int (DateFromTime (d_expiresAt uidDoc)) + days));
                        uidDoc1 = uidDoc\<lparr>d_expiresAt := newExpireDate\<rparr>;
                        uidDoc2 = uidDoc1\<lparr>d_duration := fl (d_duration uidDoc1 + fl (days * 24))\<rparr>;
                        uidDoc3 = (if d_status uidDoc2 = ''expired''
                                   then uidDoc2\<lparr>d_status := ''active''\<rparr> else uidDoc2);
                        s1 = save_uid s uidDoc3;
                        s2 = logActivity e s1 (k_userId k) ''renew_uid_api''
                               (RenewedViaApi (d_uidValue uidDoc3) days)
                    in reply 200 (ApiRenewed uidDoc3 oldExpireDate newExpireDate days) s2 [])))"

section \<open>A small installation\<close>

text \<open>
  Two regular users and the owner, configured settings, three UID records (the second one
  belongs to the second user, the third one was created through an API key and has lapsed),
  and three services: one that accepts every call, one that refuses every call and one that
  only removes.
\<close>

definition alice :: user where
  "alice = \<lparr>u_id = ''u1'', u_username = ''alice'', u_isOwner = False, u_credits = 5,
            u_isActive = True\<rparr>"

definition admin :: user where
  "admin = \<lparr>u_id = ''u0'', u_username = ''admin'', u_isOwner = True, u_credits = 2,
            u_isActive = True\<rparr>"

definition bob :: user where
  "bob = \<lparr>u_id = ''u2'', u_username = ''bob'', u_isOwner = False, u_credits = 10,
          u_isActive = True\<rparr>"

definition uidA :: uid_doc where
  "uidA = \<lparr>d_id = ''d1'', d_userId = ''u1'', d_apiKeyId = None, d_uidValue = ''ABC123'',
           d_duration = 24, d_cost = 1 / 2, d_status = ''active'',
           d_createdAt = 1700000000000, d_expiresAt = 1700086400000\<rparr>"

definition uidB :: uid_doc where
  "uidB = \<lparr>d_id = ''d2'', d_userId = ''u2'', d_apiKeyId = None, d_uidValue = ''BOB00001'',
           d_duration = 24, d_cost = 1 / 2, d_status = ''active'',
           d_createdAt = 1700000100000, d_expiresAt = 1700086500000\<rparr>"

definition uidK :: uid_doc where
  "uidK = \<lparr>d_id = ''d3'', d_userId = ''u1'', d_apiKeyId = Some ''k1'', d_uidValue = ''KEY00001'',
           d_duration = 24, d_cost = 0, d_status = ''expired'',
           d_createdAt = 1699900000000, d_expiresAt = 1700000000000\<rparr>"

definition db0 :: db where
  "db0 = \<lparr>users = [alice, admin, bob], uids = [uidA, uidB, uidK], logs = [],
          settings = Some \<lparr>baseUrl = ''https://bypass.example/api'', apiKey = ''secret''\<rparr>\<rparr>"

definition env0 :: env where
  "env0 = \<lparr>now = 1700000200000, stamp = 1700000200001, newId = ''d9''\<rparr>"

definition sess_alice :: session where
  "sess_alice = \<lparr>s_userId = ''u1'', s_isOwner = False\<rparr>"

definition sess_admin :: session where
  "sess_admin = \<lparr>s_userId = ''u0'', s_isOwner = True\<rparr>"

definition key1 :: api_key_doc where
  "key1 = \<lparr>k_id = ''k1'', k_userId = ''u1''\<rparr>"

definition key2 :: api_key_doc where
  "key2 = \<lparr>k_id = ''k2'', k_userId = ''u0''\<rparr>"

definition svc_ok :: service where
  "svc_ok calls c = Inr (ApiObj None)"

definition svc_down :: service where
  "svc_down calls c = Inl ''Request timeout''"

definition svc_no_create :: service where
  \<comment> \<open>removes UIDs, refuses to add any\<close>
  "svc_no_create calls c =
     (case c of Remove_uid_api u \<Rightarrow> Inr (ApiObj None) | _ \<Rightarrow> Inl ''UID limit reached'')"

definition req72 :: uid_request where
  "req72 = \<lparr>r_userId = ''u1'', r_uidValue = ''XYZ999'', r_duration = 72, r_cost = Some 0\<rparr>"

definition req_other :: uid_request where
  \<comment> \<open>a UID for the second user's account\<close>
  "req_other = \<lparr>r_userId = ''u2'', r_uidValue = ''XYZ999'', r_duration = 72, r_cost = None\<rparr>"

definition req168 :: uid_request where
  \<comment> \<open>the owner, balance 2.00, asks for a week on the owner's own account\<close>
  "req168 = \<lparr>r_userId = ''u0'', r_uidValue = ''WEEK0001'', r_duration = 168, r_cost = None\<rparr>"

section \<open>Evaluation\<close>

lemmas js_eval = fl_def ilog2_def rne_def Let_def compute_bitlen power_int_minus_divide
  toFixed2_def parseFloat_def

lemma digits_of_numeral:
  "digits_of (numeral k) n =
     (if n < 10 then [digit_char n]
      else digits_of (pred_numeral k) (n div 10) @ [digit_char (n mod 10)])"
  by (simp add: numeral_eq_Suc)

lemmas string_eval = int_toString_def digits_of_numeral digit_char_def parse_digits_def
  is_digit_def digits_value_def parseInt_def parse_magnitude_def parse_hex_def hex_digit_def
  is_space_def

lemmas store_defs = getUser_def updateUserCredits_def createUid_def UidModel_create_def
  getUid_def getUserUids_def
  deleteUid_def updateUid_def updateUidValue_def logActivity_def getSettings_def save_uid_def
  findOne_uid_def truthy_def

lemmas client_defs = request_def UIDBypassClient_create_def UIDBypassClient_create_second_def
  createUID_def deleteUID_def createUIDFree_def updateUID_def

lemmas example_defs = alice_def admin_def bob_def uidA_def uidB_def uidK_def db0_def env0_def
  sess_alice_def sess_admin_def key1_def key2_def svc_ok_def svc_down_def svc_no_create_def
  req72_def req_other_def req168_def

lemma tier_values:
  "fl (50 / 100) = 1 / 2"
  "fl (130 / 100) = 5854679515581645 / 4503599627370496"
  "fl (233 / 100) = 1311673391471657 / 562949953421312"
  "fl (350 / 100) = 7 / 2"
  "fl (520 / 100) = 5854679515581645 / 1125899906842624"
  by (simp_all add: js_eval)

lemmas create_eval = post_api_uids_def insertUidSchema_parse_def pricingTiers_def reply_def
  store_defs client_defs string_eval example_defs tier_values js_eval

section \<open>Rounding: the error of one operation, and exact cases\<close>

lemma ilog2_bounds:
  assumes "0 < x"
  shows "2 powi (ilog2 x) \<le> x \<and> x < 2 powi (ilog2 x + 1)"
proof (cases "1 \<le> x")
  case True
  define n where "n = \<lfloor>x\<rfloor>"
  have n1: "1 \<le> n" using True by (simp add: n_def le_floor_iff)
  then have pos: "0 < n" by simp
  have b: "2 ^ nat (bitlen n - 1) \<le> n" "n < 2 ^ nat (bitlen n)"
    using bitlen_bounds [OF pos] by auto
  have bl: "1 \<le> bitlen n" using pos bitlen_eq_zero_iff [of n] bitlen_nonneg [of n] by linarith
  have L: "ilog2 x = bitlen n - 1" using True by (simp add: ilog2_def n_def)
  have lo: "(2::real) ^ nat (bitlen n - 1) \<le> x"
  proof -
    have "(2::real) ^ nat (bitlen n - 1) = of_int (2 ^ nat (bitlen n - 1))" by simp
    also have "\<dots> \<le> of_int n" using b(1) by (simp only: of_int_le_iff)
    also have "\<dots> \<le> x" by (simp add: n_def)
    finally show ?thesis .
  qed
  have hi: "x < (2::real) ^ nat (bitlen n)"
  proof -
    have "x < of_int (n + 1)" by (simp add: n_def)
    also have "\<dots> \<le> of_int (2 ^ nat (bitlen n))"
    proof -
      have "n + 1 \<le> 2 ^ nat (bitlen n)" using b(2) by simp
      then show ?thesis by (simp only: of_int_le_iff)
    qed
    finally show ?thesis by simp
  qed
  have e1: "(2::real) powi (bitlen n - 1) = 2 ^ nat (bitlen n - 1)"
    using bl by (simp add: power_int_nonneg_exp)
  have e2: "(2::real) powi (bitlen n - 1 + 1) = 2 ^ nat (bitlen n)"
    using bl by (simp add: power_int_nonneg_exp)
  show ?thesis unfolding L e1 e2 using lo hi by simp
next
  case False
  then have x1: "x < 1" by simp
  define y where "y = 1 / x"
  have y1: "1 < y" using assms x1 by (simp add: y_def)
  define m where "m = \<lceil>y\<rceil> - 1"
  have m1: "1 \<le> m" using y1 by (simp add: m_def less_ceiling_iff)
  then have pos: "0 < m" by simp
  have b: "2 ^ nat (bitlen m - 1) \<le> m" "m < 2 ^ nat (bitlen m)"
    using bitlen_bounds [OF pos] by auto
  have bl: "1 \<le> bitlen m" using pos bitlen_eq_zero_iff [of m] bitlen_nonneg [of m] by linarith
  have L: "ilog2 x = - bitlen m" using False by (simp add: ilog2_def m_def y_def)
  have my: "of_int m < y" "y \<le> of_int m + 1"
    unfolding m_def by (simp_all add: less_ceiling_iff) linarith
  have lo: "(2::real) ^ nat (bitlen m - 1) < y"
  proof -
    have "(2::real) ^ nat (bitlen m - 1) = of_int (2 ^ nat (bitlen m - 1))" by simp
    also have "\<dots> \<le> of_int m" using b(1) by (simp only: of_int_le_iff)
    also have "\<dots> < y" by (rule my)
    finally show ?thesis .
  qed
  have hi: "y \<le> (2::real) ^ nat (bitlen m)"
  proof -
    have "y \<le> of_int (m + 1)" using my(2) by simp
    also have "\<dots> \<le> of_int (2 ^ nat (bitlen m))"
    proof -
      have "m + 1 \<le> 2 ^ nat (bitlen m)" using b(2) by simp
      then show ?thesis by (simp only: of_int_le_iff)
    qed
    finally show ?thesis by simp
  qed
  have x_eq: "x = 1 / y" using assms by (simp add: y_def)
  have e1: "(2::real) powi (- bitlen m) = 1 / 2 ^ nat (bitlen m)"
    using bl by (simp add: power_int_minus_divide power_int_nonneg_exp)
  have e2: "(2::real) powi (- bitlen m + 1) = 1 / 2 ^ nat (bitlen m - 1)"
  proof -
    have "- bitlen m + 1 = - (bitlen m - 1)" by simp
    then show ?thesis using bl by (simp only: power_int_minus_divide) (simp add: power_int_nonneg_exp)
  qed
  have ypos: "0 < y" using y1 by simp
  have "1 / 2 ^ nat (bitlen m) \<le> 1 / y"
    using hi ypos by (simp add: frac_le)
  moreover have "1 / y < 1 / 2 ^ nat (bitlen m - 1)"
    using lo by (simp add: frac_less2)
  ultimately have "1 / 2 ^ nat (bitlen m) \<le> x \<and> x < 1 / 2 ^ nat (bitlen m - 1)"
    by (simp only: x_eq)
  moreover have "(2::real) powi ilog2 x = 1 / 2 ^ nat (bitlen m)" by (simp only: L e1)
  moreover have "(2::real) powi (ilog2 x + 1) = 1 / 2 ^ nat (bitlen m - 1)" by (simp only: L e2)
  ultimately show ?thesis by (simp only:)
qed

lemma rne_error: "\<bar>of_int (rne y) - y\<bar> \<le> 1 / 2"
  unfolding rne_def Let_def by (auto simp: abs_if) linarith+

lemma rne_of_int: "rne (of_int k) = k"
  by (simp add: rne_def)

lemma fl_error: "\<bar>fl x - x\<bar> \<le> \<bar>x\<bar> / 2 ^ 53"
proof (cases "x = 0")
  case True
  then show ?thesis by (simp add: fl_def)
next
  case False
  define L where "L = ilog2 \<bar>x\<bar>"
  define s :: real where "s = 2 powi (L - 52)"
  have spos: "0 < s" by (simp add: s_def)
  have flx: "fl x = of_int (rne (x / s)) * s"
    using False by (simp add: fl_def Let_def s_def L_def)
  have "2 powi L \<le> \<bar>x\<bar>" using ilog2_bounds [of "\<bar>x\<bar>"] False by (simp add: L_def)
  moreover have "(2::real) powi L = s * 2 ^ 52"
    by (simp add: s_def power_int_diff)
  ultimately have sx: "s \<le> \<bar>x\<bar> / 2 ^ 52" by (simp add: field_simps)
  have "fl x - x = (of_int (rne (x / s)) - x / s) * s"
    using spos by (simp add: flx field_simps)
  then have "\<bar>fl x - x\<bar> = \<bar>of_int (rne (x / s)) - x / s\<bar> * s"
    using spos by (simp add: abs_mult)
  also have "\<dots> \<le> (1 / 2) * s"
    using rne_error [of "x / s"] spos by (intro mult_right_mono) simp_all
  also have "\<dots> \<le> (1 / 2) * (\<bar>x\<bar> / 2 ^ 52)"
    using sx by simp
  also have "\<dots> = \<bar>x\<bar> / 2 ^ 53" by simp
  finally show ?thesis .
qed

lemma fl_of_int:
  assumes "\<bar>k\<bar> \<le> 2 ^ 53"
  shows "fl (of_int k) = of_int k"
proof (cases "k = 0")
  case True
  then show ?thesis by (simp add: fl_def)
next
  case False
  define L where "L = ilog2 \<bar>of_int k\<bar>"
  define s :: real where "s = 2 powi (L - 52)"
  have spos: "0 < s" by (simp add: s_def)
  have flx: "fl (of_int k) = of_int (rne (of_int k / s)) * s"
    using False by (simp add: fl_def Let_def s_def L_def)
  have lo: "2 powi L \<le> \<bar>real_of_int k\<bar>"
    using ilog2_bounds [of "\<bar>of_int k\<bar>"] False by (simp add: L_def)
  have kb: "\<bar>real_of_int k\<bar> \<le> 2 ^ 53"
  proof -
    have "real_of_int \<bar>k\<bar> \<le> real_of_int (2 ^ 53)" using assms by (simp only: of_int_le_iff)
    then show ?thesis by simp
  qed
  have "(2::real) powi L \<le> 2 powi 53" using lo kb by simp
  then have L53: "L \<le> 53" by (rule power_int_le_imp_le_exp [rotated]) simp_all
  have "\<exists>j. real_of_int k / s = of_int j"
  proof (cases "L \<le> 52")
    case True
    have "1 / s = 2 powi (52 - L)"
      by (simp add: s_def power_int_diff)
    also have "\<dots> = 2 ^ nat (52 - L)" using True by (simp add: power_int_nonneg_exp)
    finally have inv: "1 / s = 2 ^ nat (52 - L)" .
    have "real_of_int k / s = real_of_int k * (1 / s)" by simp
    also have "\<dots> = of_int (k * 2 ^ nat (52 - L))" by (simp only: inv) simp
    finally show ?thesis by blast
  next
    case False
    with L53 have L: "L = 53" by simp
    then have "(2::real) ^ 53 \<le> \<bar>real_of_int k\<bar>" using lo by simp
    with kb have "\<bar>real_of_int k\<bar> = 2 ^ 53" by simp
    then have "\<bar>k\<bar> = 2 ^ 53"
      by (metis of_int_abs of_int_eq_iff of_int_numeral of_int_power)
    then have "k = 2 ^ 53 \<or> k = - (2 ^ 53)" by (auto simp: abs_if split: if_splits)
    then have "k = 2 * (k div 2)" by auto
    then have "real_of_int k = 2 * of_int (k div 2)"
      by (metis of_int_mult of_int_numeral)
    moreover have "s = 2" by (simp add: s_def L)
    ultimately have "real_of_int k / s = of_int (k div 2)" by simp
    then show ?thesis by blast
  qed
  then obtain j where j: "real_of_int k / s = of_int j" by blast
  have "fl (of_int k) = of_int j * s" by (simp add: flx j rne_of_int)
  also have "\<dots> = (real_of_int k / s) * s" by (simp add: j)
  also have "\<dots> = of_int k" using spos by simp
  finally show ?thesis .
qed

lemma parseFloat_error: "\<bar>parseFloat n - of_int n / 100\<bar> \<le> \<bar>of_int n / 100\<bar> / 2 ^ 53"
  unfolding parseFloat_def by (rule fl_error)

lemma debit_exact:
  assumes P: "0 \<le> P" "P \<le> c" and c: "c < 2 ^ 50"
  shows "toFixed2 (fl (parseFloat c - parseFloat P)) = c - P"
proof -
  define C :: real where "C = of_int c"
  define Q :: real where "Q = of_int P"
  define b where "b = parseFloat c"
  define p where "p = parseFloat P"
  define y where "y = fl (b - p)"
  define e :: real where "e = 1 / 2 ^ 53"
  have CQ: "0 \<le> Q" "Q \<le> C" using P by (simp_all add: C_def Q_def)
  have Cb: "C < 2 ^ 50"
  proof -
    have "real_of_int c < real_of_int (2 ^ 50)" using c by (simp only: of_int_less_iff)
    then show ?thesis by (simp add: C_def)
  qed
  have eb: "\<bar>b - C / 100\<bar> \<le> C / 100 * e"
    using parseFloat_error [of c] CQ by (simp add: b_def C_def e_def)
  have ep: "\<bar>p - Q / 100\<bar> \<le> Q / 100 * e"
    using parseFloat_error [of P] CQ by (simp add: p_def Q_def e_def)
  have ez: "\<bar>(b - p) - (C - Q) / 100\<bar> \<le> (C + Q) / 100 * e"
    using eb ep by (simp add: field_simps abs_le_iff)
  have e53: "0 < e" "e \<le> 1" by (simp_all add: e_def)
  have zabs: "\<bar>b - p\<bar> \<le> (C - Q) / 100 + (C + Q) / 100 * e"
  proof -
    define D where "D = (C - Q) / 100"
    define E where "E = (C + Q) / 100 * e"
    have "0 \<le> D" using CQ by (simp add: D_def)
    moreover have "\<bar>b - p - D\<bar> \<le> E" using ez by (simp only: D_def E_def)
    ultimately have "\<bar>b - p\<bar> \<le> D + E" by linarith
    then show ?thesis by (simp only: D_def E_def)
  qed
  have "\<bar>y - (b - p)\<bar> \<le> \<bar>b - p\<bar> * e"
    using fl_error [of "b - p"] by (simp add: y_def e_def)
  also have "\<dots> \<le> ((C - Q) / 100 + (C + Q) / 100 * e) * e"
    using zabs e53 by (intro mult_right_mono) simp_all
  finally have ey: "\<bar>y - (b - p)\<bar> \<le> ((C - Q) / 100 + (C + Q) / 100 * e) * e" .
  have "\<bar>y - (C - Q) / 100\<bar> \<le> \<bar>y - (b - p)\<bar> + \<bar>(b - p) - (C - Q) / 100\<bar>"
    by simp
  also have "\<dots> \<le> ((C - Q) / 100 + (C + Q) / 100 * e) * e + (C + Q) / 100 * e"
    using ey ez by simp
  also have "\<dots> \<le> (4 * C / 100) * e"
  proof -
    define E where "E = (C + Q) / 100 * e"
    have "E \<le> (C + Q) / 100" unfolding E_def using e53 CQ by (simp add: mult_left_le)
    then have "(C - Q) / 100 + E + (C + Q) / 100 \<le> 4 * C / 100"
      using CQ by argo
    then have "(C - Q) / 100 + (C + Q) / 100 * e + (C + Q) / 100 \<le> 4 * C / 100"
      by (simp only: E_def)
    then have "((C - Q) / 100 + (C + Q) / 100 * e + (C + Q) / 100) * e \<le> (4 * C / 100) * e"
      using e53 by (intro mult_right_mono) simp_all
    then show ?thesis by (simp add: algebra_simps)
  qed
  finally have "\<bar>y - (C - Q) / 100\<bar> \<le> (4 * C / 100) * e" .
  then have "100 * \<bar>y - (C - Q) / 100\<bar> \<le> 4 * C * e" by simp
  moreover have "4 * C * e < 1 / 2" using Cb by (simp add: e_def)
  ultimately have "100 * \<bar>y - (C - Q) / 100\<bar> < 1 / 2" by simp
  then have near: "C - Q - 1 / 2 < 100 * y" "100 * y < C - Q + 1 / 2"
    by argo+
  have CQi: "C - Q = of_int (c - P)" by (simp add: C_def Q_def)
  have fl1: "\<lfloor>100 * y + 1 / 2\<rfloor> = c - P"
    using near unfolding CQi by (intro floor_unique) simp_all
  show ?thesis
  proof (cases "y < 0")
    case False
    then show ?thesis using fl1 by (simp add: toFixed2_def y_def b_def p_def)
  next
    case True
    with near(1) have "C - Q < 1 / 2" by simp
    then have "real_of_int (c - P) < 1" unfolding CQi by simp
    then have "c - P < 1" by linarith
    with P have z: "c - P = 0" by simp
    have "\<lfloor>100 * (- y) + 1 / 2\<rfloor> = 0"
      using near True unfolding CQi z by (intro floor_unique) simp_all
    then show ?thesis using True z by (simp add: toFixed2_def y_def b_def p_def)
  qed
qed

lemma parseFloat_strict_mono:
  assumes "0 \<le> a" "a < b" "b < 2 ^ 50"
  shows "parseFloat a < parseFloat b"
proof -
  define A :: real where "A = of_int a"
  define B :: real where "B = of_int b"
  define e :: real where "e = 1 / 2 ^ 53"
  have AB: "0 \<le> A" "A + 1 \<le> B"
  proof -
    show "0 \<le> A" using assms by (simp add: A_def)
    have "a + 1 \<le> b" using assms by simp
    then have "real_of_int (a + 1) \<le> real_of_int b" by (simp only: of_int_le_iff)
    then show "A + 1 \<le> B" by (simp add: A_def B_def)
  qed
  have Bb: "B < 2 ^ 50"
  proof -
    have "real_of_int b < real_of_int (2 ^ 50)" using assms by (simp only: of_int_less_iff)
    then show ?thesis by (simp add: B_def)
  qed
  have "\<bar>parseFloat a - A / 100\<bar> \<le> A / 100 * e"
    using parseFloat_error [of a] AB by (simp add: A_def e_def)
  then have ea: "parseFloat a \<le> A / 100 + A / 100 * e" by linarith
  have "\<bar>parseFloat b - B / 100\<bar> \<le> B / 100 * e"
    using parseFloat_error [of b] AB by (simp add: B_def e_def)
  then have eb: "B / 100 - B / 100 * e \<le> parseFloat b" by linarith
  have "(A + B) * e < 1"
  proof -
    have "A + B < 2 ^ 51" using AB Bb by simp
    then have "(A + B) * e < 2 ^ 51 * e" by (simp add: e_def)
    also have "\<dots> \<le> 1" by (simp add: e_def)
    finally show ?thesis .
  qed
  then have "A + A * e < B - B * e" using AB by (simp add: algebra_simps)
  then have "A / 100 + A / 100 * e < B / 100 - B / 100 * e" by simp
  with ea eb show ?thesis by linarith
qed

lemma parseFloat_less_iff:
  assumes "0 \<le> a" "a < 2 ^ 50" "0 \<le> b" "b < 2 ^ 50"
  shows "parseFloat a < parseFloat b \<longleftrightarrow> a < b"
proof
  assume "a < b" then show "parseFloat a < parseFloat b"
    using assms by (intro parseFloat_strict_mono)
next
  assume l: "parseFloat a < parseFloat b"
  show "a < b"
  proof (rule ccontr)
    assume "\<not> a < b"
    then consider "a = b" | "b < a" by linarith
    then show False
    proof cases
      case 1 with l show False by simp
    next
      case 2
      then have "parseFloat b < parseFloat a" using assms by (intro parseFloat_strict_mono)
      with l show False by simp
    qed
  qed
qed

section \<open>Create: nothing changes when the external call fails\<close>

lemma post_api_uids_call_failed:
  assumes "post_api_uids e svc sess req s = (resp, s', calls)"
    and "c \<in> set calls" and "svc [] c = Inl msg"
  shows "s' = s \<and> status resp = 400"
proof -
  have c: "createUID svc [] u d = (r, cs) \<Longrightarrow> c \<in> set cs \<Longrightarrow> r = Inl msg" for u d r cs
    using assms(3) by (auto simp: createUID_def request_def Let_def)
  show ?thesis
    using assms(1,2)
    by (auto simp: post_api_uids_def reply_def Let_def
        split: sum.splits option.splits if_splits prod.splits api_result.splits dest: c)
qed

text \<open>
  C1. When the \<open>createUID\<close> call of a Create request fails, the request is answered with an
  error and the store after it is the store before it: the balance of the owning user is the
  same, no UID record has been created and no activity entry has been appended.
\<close>

theorem create_external_failure_atomic:
  assumes "post_api_uids e svc sess req s = (resp, s', calls)"
    and "c \<in> set calls" and "svc [] c = Inl msg"
  shows "status resp = 400 \<and> s' = s
       \<and> map_option u_credits (getUser s' (r_userId req)) = map_option u_credits (getUser s (r_userId req))
       \<and> uids s' = uids s \<and> logs s' = logs s"
  using post_api_uids_call_failed [OF assms] by simp

theorem create_external_failure_atomic_witness:
  "post_api_uids env0 svc_down sess_alice req72 db0
     = (\<lparr>status = 400, body = Error ''API Error: Request timeout''\<rparr>, db0,
        [Add_uid_api ''XYZ999'' (Some 3) ''PK''])
   \<and> Add_uid_api ''XYZ999'' (Some 3) ''PK'' \<in> set [Add_uid_api ''XYZ999'' (Some 3) ''PK'']
   \<and> svc_down [] (Add_uid_api ''XYZ999'' (Some 3) ''PK'') = Inl ''Request timeout''
   \<and> map_option u_credits (getUser db0 (r_userId req72)) = Some 5
   \<and> uids db0 = [uidA, uidB, uidK] \<and> logs db0 = []"
proof -
  have run: "post_api_uids env0 svc_down sess_alice req72 db0
     = (\<lparr>status = 400, body = Error ''API Error: Request timeout''\<rparr>, db0,
        [Add_uid_api ''XYZ999'' (Some 3) ''PK''])"
    by (simp add: create_eval)
  have call: "Add_uid_api ''XYZ999'' (Some 3) ''PK'' \<in> set [Add_uid_api ''XYZ999'' (Some 3) ''PK'']"
    by simp
  have down: "svc_down [] (Add_uid_api ''XYZ999'' (Some 3) ''PK'') = Inl ''Request timeout''"
    by (simp add: svc_down_def)
  have "map_option u_credits (getUser db0 (r_userId req72)) = Some 5"
    by (simp add: store_defs example_defs)
  moreover have "uids db0 = [uidA, uidB, uidK]" "logs db0 = []"
    by (simp_all add: db0_def)
  ultimately show ?thesis
    using create_external_failure_atomic [OF run call down] run call down by simp
qed

section \<open>List helpers\<close>

lemma find_update_first_same:
  assumes "\<And>x. P x \<Longrightarrow> P (f x)"
  shows "find P (update_first P f xs) = map_option f (find P xs)"
  using assms by (induction xs) auto

lemma map_update_first:
  assumes "\<And>x. P x \<Longrightarrow> g (f x) = g x"
  shows "map g (update_first P f xs) = map g xs"
  using assms by (induction xs) auto

lemma find_delete_first_distinct:
  assumes "distinct (map k xs)"
  shows "find (\<lambda>x. k x = i) (delete_first (\<lambda>x. k x = i) xs) = None"
  using assms
proof (induction xs)
  case Nil
  then show ?case by simp
next
  case (Cons x xs)
  show ?case
  proof (cases "k x = i")
    case True
    with Cons.prems have "i \<notin> k ` set xs" by auto
    then have "find (\<lambda>x. k x = i) xs = None" by (auto simp: find_None_iff)
    with True show ?thesis by simp
  next
    case False
    with Cons show ?thesis by simp
  qed
qed

lemma length_delete_first:
  "find P xs \<noteq> None \<Longrightarrow> Suc (length (delete_first P xs)) = length xs"
  by (induction xs) auto

lemma find_Some_mem: "find P xs = Some x \<Longrightarrow> x \<in> set xs \<and> P x"
  by (induction xs) (auto split: if_splits)

section \<open>Delete\<close>

lemma deleteUID_eq: "deleteUID svc cs u = (svc cs (Remove_uid_api u), cs @ [Remove_uid_api u])"
  by (simp add: deleteUID_def request_def)

text \<open>
  C4. When the \<open>deleteUID\<close> call of a Delete request fails, the request is answered with
  status 500 and the store is the one before the request, so the UID record is still there,
  unchanged. The store changes only when the service has accepted the \<open>remove_uid_api\<close> call
  for the value of the record: \<open>deleteUid\<close> runs after the external delete, never before.
\<close>

theorem delete_external_failure_keeps_record:
  assumes "delete_api_uids e svc sess uidId s = (resp, s', calls)"
  shows "(c \<in> set calls \<and> svc [] c = Inl msg \<longrightarrow>
            status resp = 500 \<and> s' = s \<and> getUid s' uidId = getUid s uidId \<and> getUid s uidId \<noteq> None)
       \<and> (s' \<noteq> s \<longrightarrow>
            (\<exists>uid r. getUid s uidId = Some uid \<and> calls = [Remove_uid_api (d_uidValue uid)]
                   \<and> svc [] (Remove_uid_api (d_uidValue uid)) = Inr r \<and> status resp = 200))"
  using assms
  by (auto simp: delete_api_uids_def reply_def Let_def deleteUID_eq
      split: option.splits if_splits sum.splits)

lemmas delete_eval = delete_api_uids_def reply_def store_defs client_defs example_defs

theorem delete_external_failure_keeps_record_witness:
  "delete_api_uids env0 svc_down sess_alice ''d1'' db0
     = (\<lparr>status = 500,
         body = ErrorDetails ''Failed to delete UID from external service'' ''Request timeout''\<rparr>,
        db0, [Remove_uid_api ''ABC123''])
   \<and> Remove_uid_api ''ABC123'' \<in> set [Remove_uid_api ''ABC123'']
   \<and> svc_down [] (Remove_uid_api ''ABC123'') = Inl ''Request timeout''
   \<and> getUid db0 ''d1'' = Some uidA
   \<and> fst (snd (delete_api_uids env0 svc_ok sess_alice ''d1'' db0)) \<noteq> db0
   \<and> snd (snd (delete_api_uids env0 svc_ok sess_alice ''d1'' db0)) = [Remove_uid_api ''ABC123'']
   \<and> svc_ok [] (Remove_uid_api ''ABC123'') = Inr (ApiObj None)"
proof -
  have run: "delete_api_uids env0 svc_down sess_alice ''d1'' db0
     = (\<lparr>status = 500,
         body = ErrorDetails ''Failed to delete UID from external service'' ''Request timeout''\<rparr>,
        db0, [Remove_uid_api ''ABC123''])"
    by (simp add: delete_eval)
  obtain resp s' calls where ok: "delete_api_uids env0 svc_ok sess_alice ''d1'' db0 = (resp, s', calls)"
    by (cases "delete_api_uids env0 svc_ok sess_alice ''d1'' db0") auto
  have chg: "s' \<noteq> db0" using ok by (auto simp: delete_eval)
  have g: "getUid db0 ''d1'' = Some uidA" by (simp add: store_defs example_defs)
  from delete_external_failure_keeps_record [OF run, of "Remove_uid_api ''ABC123''" "''Request timeout''"]
       delete_external_failure_keeps_record [OF ok] chg g run ok
  show ?thesis by (auto simp: svc_down_def svc_ok_def uidA_def)
qed

section \<open>Rename\<close>

lemma updateUID_eq:
  "updateUID svc hist old new =
     (case svc hist (Remove_uid_api old) of
        Inl m \<Rightarrow> (Inl m, hist @ [Remove_uid_api old])
      | Inr r \<Rightarrow> (svc (hist @ [Remove_uid_api old]) (Add_uid_free_api new ''PK''),
                  hist @ [Remove_uid_api old, Add_uid_free_api new ''PK'']))"
  by (simp add: updateUID_def deleteUID_def createUIDFree_def request_def split: sum.splits)

lemma updateUidValueSchema_parse_Inr: "updateUidValueSchema_parse v = Inr x \<Longrightarrow> x = v"
  by (auto simp: updateUidValueSchema_parse_def split: if_splits)

lemma patch_api_uids_value_failed:
  assumes "patch_api_uids_value cls e svc sess uidId v s = (resp, s', calls)"
    and "getUid s uidId = Some uid" and "updateUID svc [] (d_uidValue uid) v = (Inl msg, cs)"
  shows "s' = s \<and> status resp \<noteq> 200"
  using assms
  by (auto simp: patch_api_uids_value_def reply_def Let_def
      split: option.splits if_splits sum.splits prod.splits client_copy.splits
      dest!: updateUidValueSchema_parse_Inr)

lemma patch_api_uids_value_imported:
  assumes "patch_api_uids_value Imported_copy e svc sess uidId v s = (resp, s', calls)"
  shows "s' = s \<and> calls = [] \<and> status resp \<noteq> 200"
  using assms
  by (auto simp: patch_api_uids_value_def reply_def Let_def
      split: option.splits if_splits sum.splits)

text \<open>
  C5. When \<open>updateUID\<close> fails in a rename request, in its delete step or in its free-create
  step, the request is refused and the store is unchanged, so the record keeps its value;
  this holds with either copy of the client class (with the imported one the request is
  refused before any call is made, whatever the service would answer).
  \<open>updateUID\<close> is \<open>deleteUID\<close> of the old value followed by \<open>createUIDFree\<close> of the new one;
  when the delete step fails the free-create call is not made.
\<close>

theorem rename_external_failure_keeps_value:
  assumes "patch_api_uids_value cls e svc sess uidId v s = (resp, s', calls)"
  shows "(getUid s uidId = Some uid \<and> updateUID svc [] (d_uidValue uid) v = (Inl msg, cs) \<longrightarrow>
            s' = s \<and> status resp \<noteq> 200
            \<and> map_option d_uidValue (getUid s' uidId) = Some (d_uidValue uid))
       \<and> updateUID svc' hist old new =
            (case svc' hist (Remove_uid_api old) of
               Inl m \<Rightarrow> (Inl m, hist @ [Remove_uid_api old])
             | Inr r \<Rightarrow> (svc' (hist @ [Remove_uid_api old]) (Add_uid_free_api new ''PK''),
                         hist @ [Remove_uid_api old, Add_uid_free_api new ''PK'']))
       \<and> (svc' [] (Remove_uid_api old) = Inl m \<longrightarrow>
            updateUID svc' [] old new = (Inl m, [Remove_uid_api old]))"
proof -
  have "s' = s \<and> status resp \<noteq> 200
        \<and> map_option d_uidValue (getUid s' uidId) = Some (d_uidValue uid)"
    if "getUid s uidId = Some uid" "updateUID svc [] (d_uidValue uid) v = (Inl msg, cs)"
    using patch_api_uids_value_failed [OF assms that] that(1) by simp
  moreover have "updateUID svc' [] old new = (Inl m, [Remove_uid_api old])"
    if "svc' [] (Remove_uid_api old) = Inl m"
    using that by (simp add: updateUID_eq)
  ultimately show ?thesis
    using updateUID_eq [of svc' hist old new] by blast
qed

lemmas rename_eval = patch_api_uids_value_def updateUidValueSchema_parse_def reply_def
  store_defs client_defs example_defs

theorem rename_external_failure_keeps_value_witness:
  "patch_api_uids_value Second_copy env0 svc_no_create sess_alice ''d1'' ''XYZ999'' db0
     = (\<lparr>status = 400,
         body = ErrorDetails ''Failed to update UID on external service'' ''UID limit reached''\<rparr>,
        db0, [Remove_uid_api ''ABC123'', Add_uid_free_api ''XYZ999'' ''PK''])
   \<and> patch_api_uids_value Imported_copy env0 svc_no_create sess_alice ''d1'' ''XYZ999'' db0
     = (\<lparr>status = 400,
         body = ErrorDetails ''Failed to update UID on external service'' ''Unknown error''\<rparr>,
        db0, [])
   \<and> getUid db0 ''d1'' = Some uidA
   \<and> updateUID svc_no_create [] (d_uidValue uidA) ''XYZ999''
       = (Inl ''UID limit reached'', [Remove_uid_api ''ABC123'', Add_uid_free_api ''XYZ999'' ''PK''])
   \<and> map_option d_uidValue (getUid db0 ''d1'') = Some ''ABC123''
   \<and> svc_down [] (Remove_uid_api ''ABC123'') = Inl ''Request timeout''
   \<and> updateUID svc_down [] ''ABC123'' ''XYZ999'' = (Inl ''Request timeout'', [Remove_uid_api ''ABC123''])"
proof -
  have run: "patch_api_uids_value Second_copy env0 svc_no_create sess_alice ''d1'' ''XYZ999'' db0
     = (\<lparr>status = 400,
         body = ErrorDetails ''Failed to update UID on external service'' ''UID limit reached''\<rparr>,
        db0, [Remove_uid_api ''ABC123'', Add_uid_free_api ''XYZ999'' ''PK''])"
    by (simp add: rename_eval)
  have run': "patch_api_uids_value Imported_copy env0 svc_no_create sess_alice ''d1'' ''XYZ999'' db0
     = (\<lparr>status = 400,
         body = ErrorDetails ''Failed to update UID on external service'' ''Unknown error''\<rparr>,
        db0, [])"
    by (simp add: rename_eval)
  have g: "getUid db0 ''d1'' = Some uidA" by (simp add: store_defs example_defs)
  have u: "updateUID svc_no_create [] (d_uidValue uidA) ''XYZ999''
       = (Inl ''UID limit reached'', [Remove_uid_api ''ABC123'', Add_uid_free_api ''XYZ999'' ''PK''])"
    by (simp add: client_defs example_defs)
  have d: "svc_down [] (Remove_uid_api ''ABC123'') = Inl ''Request timeout''"
    by (simp add: svc_down_def)
  from rename_external_failure_keeps_value [OF run, of uidA "''UID limit reached''"
      "[Remove_uid_api ''ABC123'', Add_uid_free_api ''XYZ999'' ''PK'']" svc_down "[]" "''ABC123''"
      "''XYZ999''" "''Request timeout''"]
    rename_external_failure_keeps_value [OF run', of uidA "''UID limit reached''"
      "[Remove_uid_api ''ABC123'', Add_uid_free_api ''XYZ999'' ''PK'']" svc_down "[]" "''ABC123''"
      "''XYZ999''" "''Request timeout''"] run run' g u d
  show ?thesis by (simp add: uidA_def)
qed

section \<open>The external-facing remove is a soft delete\<close>

lemma findOne_uid_key: "findOne_uid s k uid_id uid = Some d \<Longrightarrow> d_apiKeyId d = Some (k_id k)"
  by (auto simp: findOne_uid_def split: if_splits dest: find_Some_mem)

lemma findOne_uid_other_keys:
  assumes "\<forall>d\<in>set (uids s).
             (if truthy uid_id then Some (d_id d) = uid_id else Some (d_uidValue d) = uid)
               \<longrightarrow> d_apiKeyId d \<noteq> Some (k_id k)"
  shows "findOne_uid s k uid_id uid = None"
  using assms by (auto simp: findOne_uid_def find_None_iff)

lemma getUid_save_uid:
  "getUid (save_uid s doc) (d_id doc) = map_option (\<lambda>d. doc) (getUid s (d_id doc))"
  unfolding getUid_def save_uid_def
  by (simp add: find_update_first_same)

lemma map_id_save_uid: "map d_id (uids (save_uid s doc)) = map d_id (uids s)"
  unfolding save_uid_def by (simp, rule map_update_first) simp

lemma findOne_uid_getUid:
  "findOne_uid s k uid_id uid = Some d \<Longrightarrow> getUid s (d_id d) \<noteq> None"
  by (auto simp: findOne_uid_def getUid_def find_None_iff split: if_splits dest!: find_Some_mem)

lemma handleRemoveUid_found:
  assumes "findOne_uid s k uid_id uid = Some doc" and "truthy uid_id \<or> truthy uid"
  shows "handleRemoveUid e k uid_id uid s =
           (\<lparr>status = 200, body = ApiRemoved (doc\<lparr>d_status := ''deleted''\<rparr>)\<rparr>,
            logActivity e (save_uid s (doc\<lparr>d_status := ''deleted''\<rparr>)) (k_userId k)
              ''delete_uid_api'' (DeletedViaApi (d_uidValue doc)), [])"
  using assms by (auto simp: handleRemoveUid_def reply_def Let_def)

lemma handleRemoveUid_not_found:
  assumes "findOne_uid s k uid_id uid = None"
  shows "handleRemoveUid e k uid_id uid s =
           (if \<not> truthy uid_id \<and> \<not> truthy uid
            then (\<lparr>status = 400, body = Error ''Either uid_id or uid is required''\<rparr>, s, [])
            else (\<lparr>status = 404, body = Error ''UID not found or not created by this API key''\<rparr>,
                  s, []))"
  using assms by (auto simp: handleRemoveUid_def reply_def Let_def)

lemma delete_api_uids_ok:
  assumes "delete_api_uids e svc sess i t = (resp, t', calls)" and "status resp = 200"
  shows "getUid t i \<noteq> None \<and> uids t' = delete_first (\<lambda>d. d_id d = i) (uids t)"
  using assms
  by (auto simp: delete_api_uids_def reply_def Let_def deleteUid_def logActivity_def
      split: option.splits if_splits sum.splits prod.splits)

text \<open>
  C9. A successful \<open>remove_uid_api\<close> request keeps the UID record and sets its status to
  \<open>deleted\<close>: no record leaves the store. A request for a UID that the calling API key did
  not create is answered "not found" with the store unchanged. The dashboard route
  \<open>DELETE /api/uids/:id\<close>, in contrast, takes the record out of the store.
\<close>

theorem api_remove_is_soft_delete:
  assumes "handleRemoveUid e k uid_id uid s = (resp, s', calls)"
  shows "(findOne_uid s k uid_id uid = Some doc \<and> (truthy uid_id \<or> truthy uid) \<longrightarrow>
            status resp = 200 \<and> getUid s' (d_id doc) = Some (doc\<lparr>d_status := ''deleted''\<rparr>)
            \<and> map d_id (uids s') = map d_id (uids s) \<and> users s' = users s)
       \<and> ((truthy uid_id \<or> truthy uid) \<and>
           (\<forall>d\<in>set (uids s).
              (if truthy uid_id then Some (d_id d) = uid_id else Some (d_uidValue d) = uid)
                \<longrightarrow> d_apiKeyId d \<noteq> Some (k_id k)) \<longrightarrow>
            status resp = 404 \<and> s' = s \<and> calls = [])
       \<and> (distinct (map d_id (uids t)) \<and> delete_api_uids e' svc sess i t = (resp', t', calls')
            \<and> status resp' = 200 \<longrightarrow>
            getUid t' i = None \<and> Suc (length (uids t')) = length (uids t))"
proof -
  have a: "status resp = 200 \<and> getUid s' (d_id doc) = Some (doc\<lparr>d_status := ''deleted''\<rparr>)
            \<and> map d_id (uids s') = map d_id (uids s) \<and> users s' = users s"
    if f: "findOne_uid s k uid_id uid = Some doc" and tr: "truthy uid_id \<or> truthy uid"
  proof -
    let ?doc = "doc\<lparr>d_status := ''deleted''\<rparr>"
    have r: "resp = \<lparr>status = 200, body = ApiRemoved ?doc\<rparr>"
      and s': "s' = logActivity e (save_uid s ?doc) (k_userId k) ''delete_uid_api''
                      (DeletedViaApi (d_uidValue doc))"
      using assms handleRemoveUid_found [OF f tr] by simp_all
    have g: "getUid s' (d_id doc) = getUid (save_uid s ?doc) (d_id ?doc)"
      by (simp add: s' logActivity_def getUid_def)
    obtain d0 where "getUid s (d_id ?doc) = Some d0"
      using findOne_uid_getUid [OF f] by auto
    then have "getUid s' (d_id doc) = Some ?doc"
      unfolding g getUid_save_uid by simp
    moreover have "map d_id (uids s') = map d_id (uids s)"
      using map_id_save_uid [of s ?doc] by (simp add: s' logActivity_def)
    moreover have "users s' = users s"
      by (simp add: s' logActivity_def save_uid_def)
    ultimately show ?thesis using r by simp
  qed
  have b: "status resp = 404 \<and> s' = s \<and> calls = []"
    if tr: "truthy uid_id \<or> truthy uid"
      and o: "\<forall>d\<in>set (uids s).
              (if truthy uid_id then Some (d_id d) = uid_id else Some (d_uidValue d) = uid)
                \<longrightarrow> d_apiKeyId d \<noteq> Some (k_id k)"
    using assms handleRemoveUid_not_found [OF findOne_uid_other_keys [OF o]] tr by auto
  have c: "getUid t' i = None \<and> Suc (length (uids t')) = length (uids t)"
    if d: "distinct (map d_id (uids t))"
      and run: "delete_api_uids e' svc sess i t = (resp', t', calls')" and ok: "status resp' = 200"
  proof -
    from delete_api_uids_ok [OF run ok]
    have f: "find (\<lambda>d. d_id d = i) (uids t) \<noteq> None"
      and u: "uids t' = delete_first (\<lambda>d. d_id d = i) (uids t)"
      by (simp_all add: getUid_def)
    show ?thesis
      unfolding getUid_def u
      using find_delete_first_distinct [OF d, of i] length_delete_first [OF f] by simp
  qed
  from a b c show ?thesis by blast
qed

lemmas remove_eval = handleRemoveUid_def reply_def store_defs example_defs Let_def

theorem api_remove_is_soft_delete_witness:
  "handleRemoveUid env0 key1 None (Some ''KEY00001'') db0
     = (\<lparr>status = 200, body = ApiRemoved (uidK\<lparr>d_status := ''deleted''\<rparr>)\<rparr>,
        db0\<lparr>uids := [uidA, uidB, uidK\<lparr>d_status := ''deleted''\<rparr>],
            logs := [\<lparr>a_userId = ''u1'', a_action = ''delete_uid_api'',
                      a_details = DeletedViaApi ''KEY00001'', a_createdAt = 1700000200001\<rparr>]\<rparr>, [])
   \<and> findOne_uid db0 key1 None (Some ''KEY00001'') = Some uidK
   \<and> truthy (Some ''KEY00001'')
   \<and> getUid (db0\<lparr>uids := [uidA, uidB, uidK\<lparr>d_status := ''deleted''\<rparr>]\<rparr>) ''d3''
       = Some (uidK\<lparr>d_status := ''deleted''\<rparr>)
   \<and> handleRemoveUid env0 key2 None (Some ''KEY00001'') db0
       = (\<lparr>status = 404, body = Error ''UID not found or not created by this API key''\<rparr>, db0, [])
   \<and> filter (\<lambda>d. d_uidValue d = ''KEY00001'' \<and> d_apiKeyId d = Some (k_id key2)) (uids db0) = []
   \<and> distinct (map d_id (uids db0))
   \<and> status (fst (delete_api_uids env0 svc_ok sess_alice ''d1'' db0)) = 200
   \<and> getUid (fst (snd (delete_api_uids env0 svc_ok sess_alice ''d1'' db0))) ''d1'' = None"
proof -
  have run1: "handleRemoveUid env0 key1 None (Some ''KEY00001'') db0
     = (\<lparr>status = 200, body = ApiRemoved (uidK\<lparr>d_status := ''deleted''\<rparr>)\<rparr>,
        db0\<lparr>uids := [uidA, uidB, uidK\<lparr>d_status := ''deleted''\<rparr>],
            logs := [\<lparr>a_userId = ''u1'', a_action = ''delete_uid_api'',
                      a_details = DeletedViaApi ''KEY00001'', a_createdAt = 1700000200001\<rparr>]\<rparr>, [])"
    by (simp add: remove_eval)
  have f1: "findOne_uid db0 key1 None (Some ''KEY00001'') = Some uidK"
    by (simp add: store_defs example_defs)
  have tr: "truthy (Some ''KEY00001'')" by (simp add: truthy_def)
  have run2: "handleRemoveUid env0 key2 None (Some ''KEY00001'') db0
       = (\<lparr>status = 404, body = Error ''UID not found or not created by this API key''\<rparr>, db0, [])"
    by (simp add: remove_eval)
  have o: "\<forall>d\<in>set (uids db0). Some (d_uidValue d) = Some ''KEY00001'' \<longrightarrow> d_apiKeyId d \<noteq> Some (k_id key2)"
    by (simp add: example_defs)
  have dis: "distinct (map d_id (uids db0))" by (simp add: example_defs)
  obtain resp' t' calls' where run3: "delete_api_uids env0 svc_ok sess_alice ''d1'' db0 = (resp', t', calls')"
    by (cases "delete_api_uids env0 svc_ok sess_alice ''d1'' db0") auto
  have ok: "status resp' = 200" using run3 by (auto simp: delete_eval)
  have g1: "getUid (db0\<lparr>uids := [uidA, uidB, uidK\<lparr>d_status := ''deleted''\<rparr>]\<rparr>) ''d3''
       = Some (uidK\<lparr>d_status := ''deleted''\<rparr>)"
    using api_remove_is_soft_delete [OF run1, of uidK db0 env0 svc_ok sess_alice "''d1''" resp' t' calls']
      f1 tr by (simp add: getUid_def uidK_def)
  have g2: "getUid t' ''d1'' = None"
    using api_remove_is_soft_delete [OF run2, of uidK db0 env0 svc_ok sess_alice "''d1''" resp' t' calls']
      dis run3 ok o tr by simp
  have o': "filter (\<lambda>d. d_uidValue d = ''KEY00001'' \<and> d_apiKeyId d = Some (k_id key2)) (uids db0) = []"
    by (simp add: example_defs)
  show ?thesis
    using run1 f1 tr g1 run2 o' dis run3 ok g2 by simp
qed

section \<open>The plan sent to the external service\<close>

lemma pricingTiers_cases:
  "pricingTiers d = Some c \<Longrightarrow> d = 24 \<or> d = 72 \<or> d = 168 \<or> d = 336 \<or> d = 720"
  by (auto simp: pricingTiers_def split: if_splits)

lemma tier_plan:
  "map_option (\<lambda>n. \<lceil>fl (real_of_int n / 24)\<rceil>) (parseInt (int_toString 24)) = Some 1"
  "map_option (\<lambda>n. \<lceil>fl (real_of_int n / 24)\<rceil>) (parseInt (int_toString 72)) = Some 3"
  "map_option (\<lambda>n. \<lceil>fl (real_of_int n / 24)\<rceil>) (parseInt (int_toString 168)) = Some 7"
  "map_option (\<lambda>n. \<lceil>fl (real_of_int n / 24)\<rceil>) (parseInt (int_toString 336)) = Some 14"
  "map_option (\<lambda>n. \<lceil>fl (real_of_int n / 24)\<rceil>) (parseInt (int_toString 720)) = Some 30"
  by (simp_all add: string_eval js_eval)

lemma createUID_tier:
  fixes d :: real
  assumes "d = 24 \<or> d = 72 \<or> d = 168 \<or> d = 336 \<or> d = 720"
  shows "createUID svc hist u (int_toString \<lfloor>d\<rfloor>)
           = request svc hist (Add_uid_api u (Some \<lceil>d / 24\<rceil>) ''PK'')"
  using assms
proof (elim disjE)
  assume "d = 24" then show ?thesis
    by (simp add: createUID_def tier_plan)
next
  assume "d = 72" then show ?thesis
    by (simp add: createUID_def tier_plan)
next
  assume "d = 168" then show ?thesis
    by (simp add: createUID_def tier_plan)
next
  assume "d = 336" then show ?thesis
    by (simp add: createUID_def tier_plan)
next
  assume "d = 720" then show ?thesis
    by (simp add: createUID_def tier_plan)
qed

lemma insertUidSchema_parse_Inr:
  "insertUidSchema_parse req = Inr u \<Longrightarrow>
     i_userId u = r_userId req \<and> i_uidValue u = r_uidValue req \<and> i_duration u = r_duration req"
  by (auto simp: insertUidSchema_parse_def split: if_splits)

lemma ceiling_fl_div24:
  assumes "0 \<le> n" "n \<le> 2 ^ 50"
  shows "\<lceil>fl (real_of_int n / 24)\<rceil> = \<lceil>real_of_int n / 24\<rceil>"
proof -
  define k where "k = n div 24"
  define r where "r = n mod 24"
  have n: "n = 24 * k + r" and r: "0 \<le> r" "r < 24" by (simp_all add: k_def r_def)
  have k: "0 \<le> k" "k \<le> 2 ^ 50" using assms by (simp_all add: k_def pos_imp_zdiv_nonneg_iff) 
  define x where "x = real_of_int n / 24"
  have nr: "real_of_int n = 24 * real_of_int k + real_of_int r"
    by (metis n of_int_add of_int_mult of_int_numeral)
  show ?thesis
  proof (cases "r = 0")
    case True
    then have "real_of_int n / 24 = of_int k" using nr by simp
    moreover have "\<bar>k\<bar> \<le> 2 ^ 53" using k by simp
    ultimately show ?thesis by (simp add: fl_of_int)
  next
    case False
    then have r1: "1 \<le> real_of_int r" "real_of_int r \<le> 23" using r by simp_all
    have xk: "real_of_int k + 1 / 24 \<le> x" "x \<le> real_of_int k + 23 / 24"
      using r1 nr by (simp_all add: x_def)
    have nb: "real_of_int n \<le> 2 ^ 50"
    proof -
      have "real_of_int n \<le> real_of_int (2 ^ 50)" using assms by (simp only: of_int_le_iff)
      then show ?thesis by simp
    qed
    have x0: "0 \<le> x" using assms by (simp add: x_def)
    have "\<bar>fl x - x\<bar> \<le> \<bar>x\<bar> / 2 ^ 53" by (rule fl_error)
    also have "\<dots> = x / 2 ^ 53" using x0 by simp
    also have "\<dots> < 1 / 24" using nb by (simp add: x_def)
    finally have "\<bar>fl x - x\<bar> < 1 / 24" .
    then have "real_of_int k < fl x" "fl x \<le> real_of_int k + 1" using xk by linarith+
    then have "\<lceil>fl x\<rceil> = k + 1" by (intro ceiling_unique) simp_all
    moreover have "\<lceil>x\<rceil> = k + 1" using xk by (intro ceiling_unique) simp_all
    ultimately show ?thesis by (simp add: x_def)
  qed
qed

lemma post_api_uids_calls:
  assumes "post_api_uids e svc sess req s = (resp, s', calls)"
  shows "calls = [] \<or> calls = [Add_uid_api (r_uidValue req) (Some \<lceil>r_duration req / 24\<rceil>) ''PK'']"
proof (cases "insertUidSchema_parse req")
  case (Inl a)
  then show ?thesis using assms by (simp add: post_api_uids_def reply_def)
next
  case (Inr u)
  note u = insertUidSchema_parse_Inr [OF Inr]
  show ?thesis
  proof (cases "pricingTiers (r_duration req)")
    case None
    then show ?thesis using assms Inr u
      by (auto simp: post_api_uids_def reply_def split: if_splits)
  next
    case (Some cost)
    have "createUID svc [] (r_uidValue req) (int_toString \<lfloor>r_duration req\<rfloor>)
            = (svc [] (Add_uid_api (r_uidValue req) (Some \<lceil>r_duration req / 24\<rceil>) ''PK''),
               [Add_uid_api (r_uidValue req) (Some \<lceil>r_duration req / 24\<rceil>) ''PK''])"
      using createUID_tier [OF pricingTiers_cases [OF Some]] by (simp add: request_def)
    then show ?thesis using assms Inr u Some
      by (auto simp: post_api_uids_def reply_def Let_def
          split: if_splits option.splits sum.splits api_result.splits prod.splits)
  qed
qed

text \<open>
  C10. Every call that a Create request makes to the external service is \<open>add_uid_api\<close> with
  the requested UID, region \<open>PK\<close> and \<open>plan_id = \<lceil>d / 24\<rceil>\<close> for the requested duration \<open>d\<close>
  in hours; the client rounds hours up to days for every duration string that \<open>parseInt\<close>
  reads as a number from 0 to \<open>2\<^sup>5\<^sup>0\<close>.
\<close>

theorem create_plan_id_is_days_rounded_up:
  assumes "post_api_uids e svc sess req s = (resp, s', calls)"
  shows "(calls = [] \<or> calls = [Add_uid_api (r_uidValue req) (Some \<lceil>r_duration req / 24\<rceil>) ''PK''])
       \<and> (parseInt duration = Some n \<and> 0 \<le> n \<and> n \<le> 2 ^ 50 \<longrightarrow>
            createUID svc' hist u duration
              = (svc' hist (Add_uid_api u (Some \<lceil>real_of_int n / 24\<rceil>) ''PK''),
                 hist @ [Add_uid_api u (Some \<lceil>real_of_int n / 24\<rceil>) ''PK'']))"
  using post_api_uids_calls [OF assms]
  by (auto simp: createUID_def request_def ceiling_fl_div24 Let_def)

theorem create_plan_id_is_days_rounded_up_witness:
  "post_api_uids env0 svc_down sess_alice req72 db0
     = (\<lparr>status = 400, body = Error ''API Error: Request timeout''\<rparr>, db0,
        [Add_uid_api ''XYZ999'' (Some 3) ''PK''])
   \<and> \<lceil>r_duration req72 / 24\<rceil> = 3
   \<and> parseInt ''25'' = Some 25 \<and> (0::int) \<le> 25 \<and> (25::int) \<le> 2 ^ 50
   \<and> createUID svc_ok [] ''XYZ999'' ''25''
       = (Inr (ApiObj None), [Add_uid_api ''XYZ999'' (Some 2) ''PK''])"
proof -
  have run: "post_api_uids env0 svc_down sess_alice req72 db0
     = (\<lparr>status = 400, body = Error ''API Error: Request timeout''\<rparr>, db0,
        [Add_uid_api ''XYZ999'' (Some 3) ''PK''])"
    by (simp add: create_eval)
  have p: "parseInt ''25'' = Some 25" by (simp add: string_eval)
  have c: "\<lceil>real_of_int 25 / 24\<rceil> = 2" by simp
  from create_plan_id_is_days_rounded_up [OF run, of "''25''" 25 svc_ok "[]" "''XYZ999''"] p
  have "createUID svc_ok [] ''XYZ999'' ''25''
       = (Inr (ApiObj None), [Add_uid_api ''XYZ999'' (Some 2) ''PK''])"
     and "\<lceil>r_duration req72 / 24\<rceil> = 3"
    by (simp_all add: svc_ok_def req72_def)
  then show ?thesis using run p by simp
qed

section \<open>The tier table\<close>

lemma pricingTiers_tier_price: "pricingTiers d = map_option parseFloat (tier_price d)"
  by (simp add: pricingTiers_def tier_price_def parseFloat_def)

lemma tier_price_cases:
  "tier_price d = Some P \<Longrightarrow>
     (d = 24 \<and> P = 50) \<or> (d = 72 \<and> P = 130) \<or> (d = 168 \<and> P = 233)
     \<or> (d = 336 \<and> P = 350) \<or> (d = 720 \<and> P = 520)"
  by (auto simp: tier_price_def split: if_splits)

lemma tier_roundtrip:
  "toFixed2 (parseFloat 50) = 50" "toFixed2 (parseFloat 130) = 130"
  "toFixed2 (parseFloat 233) = 233" "toFixed2 (parseFloat 350) = 350"
  "toFixed2 (parseFloat 520) = 520"
  by (simp_all add: js_eval)

lemma tier_positive:
  "0 < parseFloat 50" "0 < parseFloat 130" "0 < parseFloat 233" "0 < parseFloat 350"
  "0 < parseFloat 520"
  by (simp_all add: js_eval)

lemma toFixed2_tier: "tier_price d = Some P \<Longrightarrow> toFixed2 (parseFloat P) = P"
  by (drule tier_price_cases) (auto simp: tier_roundtrip)

lemma parseFloat_tier_pos: "tier_price d = Some P \<Longrightarrow> 0 < parseFloat P"
  by (drule tier_price_cases) (auto simp: tier_positive)

lemma pricingTiers_Some:
  assumes "pricingTiers d = Some cost"
  obtains P where "tier_price d = Some P" "cost = parseFloat P" "toFixed2 cost = P" "0 < cost"
  using assms toFixed2_tier parseFloat_tier_pos
  by (auto simp: pricingTiers_tier_price)

section \<open>Renew\<close>

lemma div_bounds:
  fixes x :: int
  assumes "lo \<le> x" "x \<le> hi" "0 < k"
  shows "lo div k \<le> x div k \<and> x div k \<le> hi div k"
  using assms by (simp add: zdiv_mono1)

lemma DateFromTime_bounds: "\<bar>DateFromTime t\<bar> \<le> 1000000"
proof -
  define doe where "doe = (t div msPerDay + 719468) mod 146097"
  define yoe where "yoe = (doe - doe div 1460 + doe div 36524 - doe div 146096) div 365"
  define doy where "doy = doe - (365 * yoe + yoe div 4 - yoe div 100)"
  define mp where "mp = (5 * doy + 2) div 153"
  have d: "DateFromTime t = doy - (153 * mp + 2) div 5 + 1"
    unfolding DateFromTime_def mp_def doy_def yoe_def doe_def Let_def ..
  have doe: "0 \<le> doe" "doe \<le> 146096" by (simp_all add: doe_def) 
  have a: "0 \<le> doe div 1460" "doe div 1460 \<le> 100"
    using div_bounds [of 0 doe 146096 1460] doe by simp_all
  have b: "0 \<le> doe div 36524" "doe div 36524 \<le> 4"
    using div_bounds [of 0 doe 146096 36524] doe by simp_all
  have c: "0 \<le> doe div 146096" "doe div 146096 \<le> 1"
    using div_bounds [of 0 doe 146096 146096] doe by simp_all
  have N: "- 101 \<le> doe - doe div 1460 + doe div 36524 - doe div 146096"
    "doe - doe div 1460 + doe div 36524 - doe div 146096 \<le> 146100"
    using doe a b c by linarith+
  have yoe: "- 1 \<le> yoe" "yoe \<le> 400"
    using div_bounds [OF N, of 365] by (simp_all add: yoe_def)
  have p: "- 1 \<le> yoe div 4" "yoe div 4 \<le> 100"
    using div_bounds [of "- 1" yoe 400 4] yoe by simp_all
  have q: "- 1 \<le> yoe div 100" "yoe div 100 \<le> 4"
    using div_bounds [of "- 1" yoe 400 100] yoe by simp_all
  have doy: "- 200000 \<le> doy" "doy \<le> 200000"
    unfolding doy_def using doe yoe p q by linarith+
  have n5: "- 999998 \<le> 5 * doy + 2" "5 * doy + 2 \<le> 1000002" using doy by linarith+
  have mp: "- 6536 \<le> mp" "mp \<le> 6536"
    using div_bounds [OF n5, of 153] by (simp_all add: mp_def)
  have n3: "- 1000006 \<le> 153 * mp + 2" "153 * mp + 2 \<le> 1000010" using mp by linarith+
  have r: "- 200002 \<le> (153 * mp + 2) div 5" "(153 * mp + 2) div 5 \<le> 200002"
    using div_bounds [OF n3, of 5] by simp_all
  show ?thesis unfolding d using doy r by linarith
qed

lemma trunc_of_int: "trunc (of_int j) = j"
  by (simp add: trunc_def)

lemma setDate_whole:
  assumes "0 \<le> n" "n \<le> 2 ^ 40"
  shows "setDate t (fl (of_int (DateFromTime t) + of_int n)) = t + n * msPerDay"
proof -
  have "\<bar>DateFromTime t + n\<bar> \<le> 2 ^ 53"
    using DateFromTime_bounds [of t] assms by simp
  then have "fl (of_int (DateFromTime t + n)) = of_int (DateFromTime t + n)"
    by (rule fl_of_int)
  then have f: "fl (of_int (DateFromTime t) + of_int n) = of_int (DateFromTime t + n)"
    by simp
  have "setDate t (fl (of_int (DateFromTime t) + of_int n))
               = (t div msPerDay - DateFromTime t + (DateFromTime t + n)) * msPerDay + t mod msPerDay"
    by (simp only: f setDate_def trunc_of_int)
  also have "\<dots> = (t div msPerDay + n) * msPerDay + t mod msPerDay"
    by simp
  also have "\<dots> = t + n * msPerDay"
    by (simp add: algebra_simps)
  finally show ?thesis .
qed

lemma duration_whole:
  assumes "0 \<le> n" "n \<le> 2 ^ 40" "0 \<le> m" "m \<le> 2 ^ 50"
  shows "fl (of_int m + fl (of_int n * 24)) = of_int (m + 24 * n)"
proof -
  have "fl (of_int (n * 24)) = of_int (n * 24)" using assms by (intro fl_of_int) simp
  then have a: "fl (real_of_int n * 24) = of_int (n * 24)" by simp
  have "fl (of_int (m + n * 24)) = of_int (m + n * 24)" using assms by (intro fl_of_int) simp
  then show ?thesis unfolding a by (simp add: mult.commute)
qed

lemma renew_whole_days:
  assumes found: "findOne_uid s k uid_id uid = Some doc" and tr: "truthy uid_id \<or> truthy uid"
    and n: "0 < n" "n \<le> 2 ^ 40" and m: "d_duration doc = of_int m" "0 \<le> m" "m \<le> 2 ^ 50"
  shows "\<exists>s'. handleRenewUid e k uid_id uid (Some (of_int n)) s =
           (\<lparr>status = 200,
             body = ApiRenewed
                      (doc\<lparr>d_expiresAt := d_expiresAt doc + n * 24 * 3600000,
                           d_duration := of_int (m + 24 * n),
                           d_status := (if d_status doc = ''expired'' then ''active'' else d_status doc)\<rparr>)
                      (d_expiresAt doc) (d_expiresAt doc + n * 24 * 3600000) (of_int n)\<rparr>,
            s', [])
         \<and> getUid s' (d_id doc)
             = Some (doc\<lparr>d_expiresAt := d_expiresAt doc + n * 24 * 3600000,
                         d_duration := of_int (m + 24 * n),
                         d_status := (if d_status doc = ''expired'' then ''active'' else d_status doc)\<rparr>)"
proof -
  let ?doc = "doc\<lparr>d_expiresAt := d_expiresAt doc + n * 24 * 3600000,
                   d_duration := of_int (m + 24 * n),
                   d_status := (if d_status doc = ''expired'' then ''active'' else d_status doc)\<rparr>"
  have n0: "0 \<le> n" using n by simp
  have sd: "setDate (d_expiresAt doc) (fl (of_int (DateFromTime (d_expiresAt doc)) + of_int n))
              = d_expiresAt doc + n * 24 * 3600000"
    using setDate_whole [OF n0 n(2)] by (simp add: msPerDay_def)
  have du: "fl (d_duration doc + fl (of_int n * 24)) = of_int (m + 24 * n)"
    using duration_whole [OF n0 n(2) m(2,3)] m(1) by simp
  have pos: "\<not> (real_of_int n = 0 \<or> real_of_int n \<le> 0)" using n by simp
  have run: "handleRenewUid e k uid_id uid (Some (of_int n)) s =
           (\<lparr>status = 200,
             body = ApiRenewed ?doc (d_expiresAt doc) (d_expiresAt doc + n * 24 * 3600000) (of_int n)\<rparr>,
            logActivity e (save_uid s ?doc) (k_userId k) ''renew_uid_api''
              (RenewedViaApi (d_uidValue doc) (of_int n)), [])"
    using found tr pos
    by (auto simp: handleRenewUid_def reply_def Let_def sd du)
  obtain d0 where "getUid s (d_id ?doc) = Some d0"
    using findOne_uid_getUid [OF found] by auto
  then have "getUid (logActivity e (save_uid s ?doc) (k_userId k) ''renew_uid_api''
              (RenewedViaApi (d_uidValue doc) (of_int n))) (d_id doc) = Some ?doc"
    using getUid_save_uid [of s ?doc] by (simp add: logActivity_def getUid_def)
  with run show ?thesis by blast
qed

lemma renew_rejected:
  assumes "days_opt = None \<or> (\<exists>d. days_opt = Some d \<and> d \<le> 0)"
  shows "handleRenewUid e k uid_id uid days_opt s =
           (if \<not> truthy uid_id \<and> \<not> truthy uid
            then (\<lparr>status = 400, body = Error ''Either uid_id or uid is required''\<rparr>, s, [])
            else (\<lparr>status = 400, body = Error ''Days must be a positive number''\<rparr>, s, []))"
  using assms by (auto simp: handleRenewUid_def reply_def)

lemma DateFromTime_uidK: "DateFromTime 1700000000000 = 14"
  by code_simp

lemmas renew_eval = handleRenewUid_def reply_def store_defs example_defs Let_def
  setDate_def DateFromTime_uidK msPerDay_def trunc_def

text \<open>
  C7. A renewal by a whole number of days moves \<open>expiresAt\<close> by \<open>days * 24\<close> hours, adds
  \<open>days * 24\<close> to \<open>duration\<close> and turns \<open>expired\<close> into \<open>active\<close> (\<open>renew_whole_days\<close>); a
  request without \<open>days\<close> or with \<open>days \<le> 0\<close> is refused with the store unchanged
  (\<open>renew_rejected\<close>). With \<open>days = 1.5\<close> the handler accepts the request, adds 36 to
  \<open>duration\<close> and moves \<open>expiresAt\<close> by 24 hours only, since \<open>setDate\<close> cuts the day of the month
  to an integer.
\<close>

theorem renew_fractional_days:
  "handleRenewUid env0 key1 None (Some ''KEY00001'') (Some (3 / 2)) db0
     = (\<lparr>status = 200,
         body = ApiRenewed
                  (uidK\<lparr>d_expiresAt := 1700000000000 + 24 * 3600000, d_duration := 24 + 36,
                         d_status := ''active''\<rparr>)
                  1700000000000 (1700000000000 + 24 * 3600000) (3 / 2)\<rparr>,
        db0\<lparr>uids := [uidA, uidB,
                      uidK\<lparr>d_expiresAt := 1700000000000 + 24 * 3600000, d_duration := 24 + 36,
                           d_status := ''active''\<rparr>],
            logs := [\<lparr>a_userId = ''u1'', a_action = ''renew_uid_api'',
                      a_details = RenewedViaApi ''KEY00001'' (3 / 2),
                      a_createdAt = 1700000200001\<rparr>]\<rparr>,
        [])"
  by (simp add: renew_eval js_eval)

lemma renew_seven_days:
  "handleRenewUid env0 key1 None (Some ''KEY00001'') (Some 7) db0
     = (\<lparr>status = 200,
         body = ApiRenewed
                  (uidK\<lparr>d_expiresAt := 1700000000000 + 7 * 24 * 3600000, d_duration := 24 + 168,
                         d_status := ''active''\<rparr>)
                  1700000000000 (1700000000000 + 7 * 24 * 3600000) 7\<rparr>,
        db0\<lparr>uids := [uidA, uidB,
                      uidK\<lparr>d_expiresAt := 1700000000000 + 7 * 24 * 3600000, d_duration := 24 + 168,
                           d_status := ''active''\<rparr>],
            logs := [\<lparr>a_userId = ''u1'', a_action = ''renew_uid_api'',
                      a_details = RenewedViaApi ''KEY00001'' 7,
                      a_createdAt = 1700000200001\<rparr>]\<rparr>,
        [])"
  by (simp add: renew_eval js_eval)

section \<open>Create: the store refuses the new record\<close>

text \<open>
  \<open>storage.createUid\<close> passes no \<open>planId\<close>, so its insert is always refused. A Create that
  has got as far as the store has already made its external call; it is answered with status
  400 and the message of the \<open>ValidationError\<close>. No Create request changes the store, and
  none is answered with status 200.
\<close>

lemma createUid_fails:
  "createUid e s c = Inl ''Uid validation failed: planId: Path `planId` is required.''"
  by (simp add: createUid_def UidModel_create_def)

lemma post_api_uids_store:
  assumes "post_api_uids e svc sess req s = (resp, s', calls)"
  shows "s' = s \<and> status resp \<noteq> 200"
  using assms
  by (auto simp: post_api_uids_def reply_def Let_def createUid_fails
      split: sum.splits option.splits if_splits prod.splits api_result.splits)

lemma post_api_uids_accepted:
  assumes parse: "insertUidSchema_parse req = Inr u"
    and auth: "s_isOwner sess \<or> r_userId req = s_userId sess"
    and tier: "pricingTiers (r_duration req) = Some cost"
    and usr: "getUser s (r_userId req) = Some usr"
    and enough: "\<not> u_credits usr < cost"
    and client: "UIDBypassClient_create s = Inr cl"
    and ext: "svc [] (Add_uid_api (r_uidValue req) (Some \<lceil>r_duration req / 24\<rceil>) ''PK'') = Inr (ApiObj pl)"
  shows "post_api_uids e svc sess req s =
           (\<lparr>status = 400,
             body = Error ''Uid validation failed: planId: Path `planId` is required.''\<rparr>, s,
            [Add_uid_api (r_uidValue req) (Some \<lceil>r_duration req / 24\<rceil>) ''PK''])"
proof -
  note u = insertUidSchema_parse_Inr [OF parse]
  obtain P where P: "0 < cost" using tier by (rule pricingTiers_Some)
  have call: "createUID svc [] (r_uidValue req) (int_toString \<lfloor>r_duration req\<rfloor>)
            = (Inr (ApiObj pl), [Add_uid_api (r_uidValue req) (Some \<lceil>r_duration req / 24\<rceil>) ''PK''])"
    using createUID_tier [OF pricingTiers_cases [OF tier]] ext by (simp add: request_def)
  show ?thesis
    using parse u auth tier usr enough client call P
    by (simp add: post_api_uids_def reply_def Let_def createUid_fails)
qed


lemma post_api_uids_insufficient:
  assumes "insertUidSchema_parse req = Inr u" "s_isOwner sess \<or> r_userId req = s_userId sess"
    "pricingTiers (r_duration req) = Some cost" "getUser s (r_userId req) = Some usr"
    "u_credits usr < cost"
  shows "post_api_uids e svc sess req s
           = (\<lparr>status = 400, body = Error ''Insufficient credits''\<rparr>, s, [])"
proof -
  obtain P where "0 < cost" using assms(3) by (rule pricingTiers_Some)
  then show ?thesis
    using assms insertUidSchema_parse_Inr [OF assms(1)]
    by (auto simp: post_api_uids_def reply_def)
qed



lemma scenario_A:
  "post_api_uids env0 svc_ok sess_admin req168 db0
     = (\<lparr>status = 400, body = Error ''Insufficient credits''\<rparr>, db0, [])"
  by (simp add: create_eval)

section \<open>Ownership\<close>

lemma post_api_uids_forbidden:
  assumes "insertUidSchema_parse req = Inr u" "\<not> s_isOwner sess" "r_userId req \<noteq> s_userId sess"
  shows "post_api_uids e svc sess req s =
           (\<lparr>status = 403, body = Error ''Can only create UIDs for your own account''\<rparr>, s, [])"
  using assms insertUidSchema_parse_Inr [OF assms(1)]
  by (simp add: post_api_uids_def reply_def)

lemma delete_api_uids_forbidden:
  assumes "getUid s uidId = Some uid" "\<not> s_isOwner sess" "d_userId uid \<noteq> s_userId sess"
  shows "delete_api_uids e svc sess uidId s =
           (\<lparr>status = 403, body = Error ''Can only delete your own UIDs''\<rparr>, s, [])"
  using assms by (simp add: delete_api_uids_def reply_def)

lemma patch_api_uids_value_forbidden:
  assumes "updateUidValueSchema_parse v = Inr v'" "getUid s uidId = Some uid"
    "\<not> s_isOwner sess" "d_userId uid \<noteq> s_userId sess"
  shows "patch_api_uids_value cls e svc sess uidId v s =
           (\<lparr>status = 403, body = Error ''Can only update your own UIDs''\<rparr>, s, [])"
  using assms by (simp add: patch_api_uids_value_def reply_def)

lemma delete_api_uids_success:
  assumes "getUid s uidId = Some uid" "s_isOwner sess \<or> d_userId uid = s_userId sess"
    "UIDBypassClient_create s = Inr cl" "svc [] (Remove_uid_api (d_uidValue uid)) = Inr r"
  shows "delete_api_uids e svc sess uidId s =
           (\<lparr>status = 200, body = Success\<rparr>,
            s\<lparr>uids := delete_first (\<lambda>d. d_id d = uidId) (uids s),
              logs := logs s @ [\<lparr>a_userId = s_userId sess, a_action = ''delete_uid'',
                                 a_details = DeletedUid (d_uidValue uid) (d_userId uid),
                                 a_createdAt = stamp e\<rparr>]\<rparr>,
            [Remove_uid_api (d_uidValue uid)])"
  using assms
  by (auto simp: delete_api_uids_def reply_def Let_def deleteUID_eq deleteUid_def logActivity_def)

lemma patch_api_uids_value_success:
  assumes "updateUidValueSchema_parse v = Inr v'" "getUid s uidId = Some uid"
    "s_isOwner sess \<or> d_userId uid = s_userId sess"
    "UIDBypassClient_create_second s = Inr cl" "updateUID svc [] (d_uidValue uid) v = (Inr r, cs)"
  shows "patch_api_uids_value Second_copy e svc sess uidId v s =
           (\<lparr>status = 200, body = ValueUpdated (d_uidValue uid) v\<rparr>,
            s\<lparr>uids := update_first (\<lambda>d. d_id d = uidId) (\<lambda>d. d\<lparr>d_uidValue := v\<rparr>) (uids s),
              logs := logs s @ [\<lparr>a_userId = s_userId sess, a_action = ''update_uid_value'',
                                 a_details = UpdatedValue (d_uidValue uid) v,
                                 a_createdAt = stamp e\<rparr>]\<rparr>,
            cs)"
  using assms updateUidValueSchema_parse_Inr [OF assms(1)]
  by (auto simp: patch_api_uids_value_def reply_def Let_def updateUidValue_def logActivity_def)

text \<open>
  The ownership checks themselves. A session that is not the owner's is refused with status
  403, the store untouched and no external call made, when it creates a UID for another
  user, lists another user's UIDs, deletes a UID record of another user or renames one. The
  owner's session is never refused with 403; it sees any user's list and, with the settings
  configured and the service accepting the call, deletes any user's record.
\<close>

lemma ownership_checks:
  assumes "\<not> s_isOwner sess" and "s_isOwner own"
  shows "(insertUidSchema_parse req = Inr u \<and> r_userId req \<noteq> s_userId sess \<longrightarrow>
            post_api_uids e svc sess req s =
              (\<lparr>status = 403, body = Error ''Can only create UIDs for your own account''\<rparr>, s, []))
       \<and> (userId \<noteq> s_userId sess \<longrightarrow>
            get_api_uids_user sess userId s =
              (\<lparr>status = 403, body = Error ''Can only view your own UIDs''\<rparr>, s, []))
       \<and> (getUid s uidId = Some uid \<and> d_userId uid \<noteq> s_userId sess \<longrightarrow>
            delete_api_uids e svc sess uidId s =
              (\<lparr>status = 403, body = Error ''Can only delete your own UIDs''\<rparr>, s, []))
       \<and> (updateUidValueSchema_parse v = Inr v' \<and> getUid s uidId = Some uid
            \<and> d_userId uid \<noteq> s_userId sess \<longrightarrow>
            patch_api_uids_value cls e svc sess uidId v s =
              (\<lparr>status = 403, body = Error ''Can only update your own UIDs''\<rparr>, s, []))
       \<and> status (fst (post_api_uids e svc own req s)) \<noteq> 403
       \<and> get_api_uids_user own userId s = (\<lparr>status = 200, body = UidList (getUserUids s userId)\<rparr>, s, [])
       \<and> status (fst (delete_api_uids e svc own uidId s)) \<noteq> 403
       \<and> (getUid s uidId = Some uid \<and> UIDBypassClient_create s = Inr cl
            \<and> svc [] (Remove_uid_api (d_uidValue uid)) = Inr r \<longrightarrow>
            status (fst (delete_api_uids e svc own uidId s)) = 200
            \<and> uids (fst (snd (delete_api_uids e svc own uidId s)))
                = delete_first (\<lambda>d. d_id d = uidId) (uids s))
       \<and> status (fst (patch_api_uids_value cls e svc own uidId v s)) \<noteq> 403"
proof -
  have a2: "s_isOwner own \<or> d_userId uid = s_userId own"
    using assms(2) by simp
  have view: "get_api_uids_user own userId s
                = (\<lparr>status = 200, body = UidList (getUserUids s userId)\<rparr>, s, [])"
    using assms(2) by (simp add: get_api_uids_user_def reply_def)
  have noview: "userId \<noteq> s_userId sess \<Longrightarrow> get_api_uids_user sess userId s =
              (\<lparr>status = 403, body = Error ''Can only view your own UIDs''\<rparr>, s, [])"
    using assms(1) by (simp add: get_api_uids_user_def reply_def)
  have create: "status (fst (post_api_uids e svc own req s)) \<noteq> 403"
    using assms(2)
    by (auto simp: post_api_uids_def reply_def Let_def createUid_fails
        split: sum.splits option.splits if_splits prod.splits api_result.splits)
  have del0: "status (fst (delete_api_uids e svc own uidId s)) \<noteq> 403"
    using assms(2)
    by (auto simp: delete_api_uids_def reply_def Let_def
        split: sum.splits option.splits if_splits prod.splits)
  have ren0: "status (fst (patch_api_uids_value cls e svc own uidId v s)) \<noteq> 403"
    using assms(2)
    by (auto simp: patch_api_uids_value_def reply_def Let_def
        split: sum.splits option.splits if_splits prod.splits client_copy.splits)
  have del: "status (fst (delete_api_uids e svc own uidId s)) = 200
            \<and> uids (fst (snd (delete_api_uids e svc own uidId s)))
                = delete_first (\<lambda>d. d_id d = uidId) (uids s)"
    if "getUid s uidId = Some uid" "UIDBypassClient_create s = Inr cl"
      "svc [] (Remove_uid_api (d_uidValue uid)) = Inr r"
    using delete_api_uids_success [where svc = svc and e = e and sess = own, OF that(1) a2 that(2,3)]
    by simp
  show ?thesis
    using post_api_uids_forbidden [of req u sess e svc s] delete_api_uids_forbidden [of s uidId uid sess e svc]
      patch_api_uids_value_forbidden [of v v' s uidId uid sess cls e svc] assms(1)
      view noview create del0 del ren0
    by blast
qed

lemmas view_eval = get_api_uids_user_def reply_def store_defs example_defs

text \<open>
  C3. The owner's Create for another user does not succeed: the owner, with the settings
  configured, asks for a 72h UID on the account of a user whose balance of 10.00 covers the
  price of 1.30; the ownership check lets the request through and the external service
  accepts the \<open>add_uid_api\<close> call, but the store refuses the record, which comes without the
  required \<open>planId\<close>, and the request is answered with status 400, nothing stored. The owner's
  rename of another user's record, with the client class that the routes import, is answered
  with status 400 before any call is made, since that class has no \<open>updateUID\<close>. The owner's
  listing and Delete of the same user's records succeed.
\<close>

theorem owner_create_and_rename_fail:
  "s_isOwner sess_admin
   \<and> insertUidSchema_parse req_other
       = Inr \<lparr>i_userId = ''u2'', i_uidValue = ''XYZ999'', i_duration = 72\<rparr>
   \<and> pricingTiers 72 = Some (parseFloat 130)
   \<and> getUser db0 ''u2'' = Some bob \<and> u_credits bob = 10 \<and> parseFloat 130 < 10
   \<and> UIDBypassClient_create db0
       = Inr \<lparr>baseUrl = ''https://bypass.example/api'', apiKey = ''secret''\<rparr>
   \<and> svc_ok [] (Add_uid_api ''XYZ999'' (Some 3) ''PK'') = Inr (ApiObj None)
   \<and> post_api_uids env0 svc_ok sess_admin req_other db0
       = (\<lparr>status = 400,
           body = Error ''Uid validation failed: planId: Path `planId` is required.''\<rparr>, db0,
          [Add_uid_api ''XYZ999'' (Some 3) ''PK''])
   \<and> getUid db0 ''d2'' = Some uidB \<and> d_userId uidB = ''u2''
   \<and> updateUidValueSchema_parse ''NEW12345'' = Inr ''NEW12345''
   \<and> patch_api_uids_value Imported_copy env0 svc_ok sess_admin ''d2'' ''NEW12345'' db0
       = (\<lparr>status = 400,
           body = ErrorDetails ''Failed to update UID on external service'' ''Unknown error''\<rparr>,
          db0, [])
   \<and> get_api_uids_user sess_admin ''u2'' db0 = (\<lparr>status = 200, body = UidList [uidB]\<rparr>, db0, [])
   \<and> delete_api_uids env0 svc_ok sess_admin ''d2'' db0
       = (\<lparr>status = 200, body = Success\<rparr>,
          db0\<lparr>uids := [uidA, uidK],
              logs := [\<lparr>a_userId = ''u0'', a_action = ''delete_uid'',
                        a_details = DeletedUid ''BOB00001'' ''u2'', a_createdAt = 1700000200001\<rparr>]\<rparr>,
          [Remove_uid_api ''BOB00001''])"
proof -
  have h2: "s_isOwner sess_admin" by (simp add: example_defs)
  have h3: "insertUidSchema_parse req_other
       = Inr \<lparr>i_userId = ''u2'', i_uidValue = ''XYZ999'', i_duration = 72\<rparr>"
    by (simp add: insertUidSchema_parse_def req_other_def)
  have h8: "pricingTiers 72 = Some (parseFloat 130)"
    by (simp add: pricingTiers_tier_price tier_price_def)
  have h9: "getUser db0 ''u2'' = Some bob" by (simp add: store_defs example_defs)
  have h10: "u_credits bob = 10" "parseFloat 130 < 10" by (simp_all add: bob_def js_eval)
  have h11: "UIDBypassClient_create db0
               = Inr \<lparr>baseUrl = ''https://bypass.example/api'', apiKey = ''secret''\<rparr>"
    by (simp add: client_defs store_defs example_defs)
  have h12: "svc_ok [] (Add_uid_api ''XYZ999'' (Some 3) ''PK'') = Inr (ApiObj None)"
    by (simp add: svc_ok_def)
  have run: "post_api_uids env0 svc_ok sess_admin req_other db0
       = (\<lparr>status = 400,
           body = Error ''Uid validation failed: planId: Path `planId` is required.''\<rparr>, db0,
          [Add_uid_api ''XYZ999'' (Some 3) ''PK''])"
    by (simp add: create_eval)
  have h5: "getUid db0 ''d2'' = Some uidB" "d_userId uidB = ''u2''"
    by (simp_all add: store_defs example_defs)
  have h7: "updateUidValueSchema_parse ''NEW12345'' = Inr ''NEW12345''"
    by (simp add: updateUidValueSchema_parse_def)
  have ren: "patch_api_uids_value Imported_copy env0 svc_ok sess_admin ''d2'' ''NEW12345'' db0
       = (\<lparr>status = 400,
           body = ErrorDetails ''Failed to update UID on external service'' ''Unknown error''\<rparr>,
          db0, [])"
    by (simp add: rename_eval)
  have v: "get_api_uids_user sess_admin ''u2'' db0 = (\<lparr>status = 200, body = UidList [uidB]\<rparr>, db0, [])"
    by (simp add: view_eval)
  have d: "delete_api_uids env0 svc_ok sess_admin ''d2'' db0
       = (\<lparr>status = 200, body = Success\<rparr>,
          db0\<lparr>uids := [uidA, uidK],
              logs := [\<lparr>a_userId = ''u0'', a_action = ''delete_uid'',
                        a_details = DeletedUid ''BOB00001'' ''u2'', a_createdAt = 1700000200001\<rparr>]\<rparr>,
          [Remove_uid_api ''BOB00001''])"
    by (simp add: delete_eval)
  show ?thesis
    using h2 h3 h8 h9 h10 h11 h12 run h5 h7 ren v d by (intro conjI)
qed

section \<open>Server-side pricing\<close>




section \<open>Activity entries\<close>

lemma getUserUids_owner: "find P (getUserUids s i) = Some u \<Longrightarrow> d_userId u = i"
  by (drule find_Some_mem) (simp add: getUserUids_def)

lemma patch_api_uids_value_log:
  assumes "patch_api_uids_value cls e svc sess uidId v s = (resp, s', calls)" "status resp = 200"
  shows "\<exists>dt. logs s' = logs s @ [\<lparr>a_userId = s_userId sess, a_action = ''update_uid_value'',
                                    a_details = dt, a_createdAt = stamp e\<rparr>]"
  using assms
  by (auto simp: patch_api_uids_value_def reply_def Let_def updateUidValue_def logActivity_def
      split: sum.splits option.splits if_splits prod.splits client_copy.splits)

lemma delete_api_uids_log:
  assumes "delete_api_uids e svc sess uidId s = (resp, s', calls)" "status resp = 200"
  shows "\<exists>dt. logs s' = logs s @ [\<lparr>a_userId = s_userId sess, a_action = ''delete_uid'',
                                    a_details = dt, a_createdAt = stamp e\<rparr>]"
  using assms
  by (auto simp: delete_api_uids_def reply_def Let_def deleteUid_def logActivity_def
      split: sum.splits option.splits if_splits prod.splits)

lemma handleRenewUid_log:
  assumes "handleRenewUid e k uid_id uid days s = (resp, s', calls)" "status resp = 200"
  shows "\<exists>dt. logs s' = logs s @ [\<lparr>a_userId = k_userId k, a_action = ''renew_uid_api'',
                                    a_details = dt, a_createdAt = stamp e\<rparr>]"
  using assms
  by (auto simp: handleRenewUid_def reply_def Let_def save_uid_def logActivity_def
      split: option.splits if_splits)

lemma handleRemoveUid_log:
  assumes "handleRemoveUid e k uid_id uid s = (resp, s', calls)" "status resp = 200"
  shows "\<exists>dt. logs s' = logs s @ [\<lparr>a_userId = k_userId k, a_action = ''delete_uid_api'',
                                    a_details = dt, a_createdAt = stamp e\<rparr>]"
  using assms
  by (auto simp: handleRemoveUid_def reply_def Let_def save_uid_def logActivity_def
      split: option.splits if_splits)

lemma patch_api_uids_log:
  assumes "patch_api_uids e sess uidId st s = (resp, s', calls)" "status resp = 200"
  shows "if find (\<lambda>u. d_id u = uidId) (getUserUids s (s_userId sess)) = None
         then s_isOwner sess \<and> logs s' = logs s
         else \<exists>dt. logs s' = logs s @ [\<lparr>a_userId = s_userId sess, a_action = ''update_uid'',
                                          a_details = dt, a_createdAt = stamp e\<rparr>]"
proof (cases "find (\<lambda>u. d_id u = uidId) (getUserUids s (s_userId sess))")
  case None
  then show ?thesis using assms
    by (auto simp: patch_api_uids_def reply_def Let_def updateUid_def split: if_splits)
next
  case (Some u)
  have "d_userId u = s_userId sess" using Some by (rule getUserUids_owner)
  then show ?thesis using assms Some
    by (auto simp: patch_api_uids_def reply_def Let_def updateUid_def logActivity_def)
qed

text \<open>
  The entries that the handlers write. A successful Delete, rename, renewal and API remove
  append one entry each: \<open>delete_uid\<close> and \<open>update_uid_value\<close> under the calling session,
  \<open>renew_uid_api\<close> and \<open>delete_uid_api\<close> under the user of the API key. A successful status
  update appends one \<open>update_uid\<close> entry under the caller when the record is among the
  caller's own UIDs, where the handler looks it up; when it is not, which only the owner's
  session gets past, it appends none. A Create never gets as far as its entry
  (\<open>post_api_uids_store\<close>).
\<close>

lemma activity_entries_written:
  "(patch_api_uids_value cls e svc sess uidId v s = (resp, s', calls) \<and> status resp = 200 \<longrightarrow>
      (\<exists>dt. logs s' = logs s @ [\<lparr>a_userId = s_userId sess, a_action = ''update_uid_value'',
                                   a_details = dt, a_createdAt = stamp e\<rparr>]))
   \<and> (delete_api_uids e svc sess uidId s = (resp, s', calls) \<and> status resp = 200 \<longrightarrow>
      (\<exists>dt. logs s' = logs s @ [\<lparr>a_userId = s_userId sess, a_action = ''delete_uid'',
                                   a_details = dt, a_createdAt = stamp e\<rparr>]))
   \<and> (handleRenewUid e k uid_id uid days s = (resp, s', calls) \<and> status resp = 200 \<longrightarrow>
      (\<exists>dt. logs s' = logs s @ [\<lparr>a_userId = k_userId k, a_action = ''renew_uid_api'',
                                   a_details = dt, a_createdAt = stamp e\<rparr>]))
   \<and> (handleRemoveUid e k uid_id uid s = (resp, s', calls) \<and> status resp = 200 \<longrightarrow>
      (\<exists>dt. logs s' = logs s @ [\<lparr>a_userId = k_userId k, a_action = ''delete_uid_api'',
                                   a_details = dt, a_createdAt = stamp e\<rparr>]))
   \<and> (patch_api_uids e sess uidId st s = (resp, s', calls) \<and> status resp = 200 \<longrightarrow>
      (if find (\<lambda>u. d_id u = uidId) (getUserUids s (s_userId sess)) = None
       then s_isOwner sess \<and> logs s' = logs s
       else \<exists>dt. logs s' = logs s @ [\<lparr>a_userId = s_userId sess, a_action = ''update_uid'',
                                        a_details = dt, a_createdAt = stamp e\<rparr>]))"
  using patch_api_uids_value_log [of cls e svc sess uidId v s resp s' calls]
    delete_api_uids_log [of e svc sess uidId s resp s' calls]
    handleRenewUid_log [of e k uid_id uid days s resp s' calls]
    handleRemoveUid_log [of e k uid_id uid s resp s' calls]
    patch_api_uids_log [of e sess uidId st s resp s' calls]
  by blast

lemmas status_eval = patch_api_uids_def reply_def store_defs example_defs Let_def

text \<open>
  C8. The owner's status update of another user's record succeeds without an activity
  entry: the owner sets the record \<open>d1\<close> of the first user to \<open>expired\<close>; the request is
  answered with status 200, the record has the new status and the log is as empty as
  before. The handler looks the record up among the caller's own UIDs and writes its entry
  only when it finds it there. The same owner's Delete of the same record writes its
  \<open>delete_uid\<close> entry under the owner's id, and a regular user's status update of an own
  record writes its \<open>update_uid\<close> entry.
\<close>

theorem owner_status_update_unlogged:
  "s_isOwner sess_admin \<and> s_userId sess_admin = ''u0''
   \<and> getUid db0 ''d1'' = Some uidA \<and> d_userId uidA = ''u1'' \<and> logs db0 = []
   \<and> patch_api_uids env0 sess_admin ''d1'' ''expired'' db0
       = (\<lparr>status = 200, body = Success\<rparr>,
          db0\<lparr>uids := [uidA\<lparr>d_status := ''expired''\<rparr>, uidB, uidK]\<rparr>, [])
   \<and> logs (db0\<lparr>uids := [uidA\<lparr>d_status := ''expired''\<rparr>, uidB, uidK]\<rparr>) = []
   \<and> delete_api_uids env0 svc_ok sess_admin ''d1'' db0
       = (\<lparr>status = 200, body = Success\<rparr>,
          db0\<lparr>uids := [uidB, uidK],
              logs := [\<lparr>a_userId = ''u0'', a_action = ''delete_uid'',
                        a_details = DeletedUid ''ABC123'' ''u1'', a_createdAt = 1700000200001\<rparr>]\<rparr>,
          [Remove_uid_api ''ABC123''])
   \<and> patch_api_uids env0 sess_alice ''d1'' ''expired'' db0
       = (\<lparr>status = 200, body = Success\<rparr>,
          db0\<lparr>uids := [uidA\<lparr>d_status := ''expired''\<rparr>, uidB, uidK],
              logs := [\<lparr>a_userId = ''u1'', a_action = ''update_uid'',
                        a_details = UpdatedStatus ''ABC123'' ''expired'',
                        a_createdAt = 1700000200001\<rparr>]\<rparr>, [])"
proof -
  have a: "s_isOwner sess_admin" "s_userId sess_admin = ''u0''" "getUid db0 ''d1'' = Some uidA"
    "d_userId uidA = ''u1''" "logs db0 = []"
    by (simp_all add: store_defs example_defs)
  have b: "patch_api_uids env0 sess_admin ''d1'' ''expired'' db0
       = (\<lparr>status = 200, body = Success\<rparr>,
          db0\<lparr>uids := [uidA\<lparr>d_status := ''expired''\<rparr>, uidB, uidK]\<rparr>, [])"
    by (simp add: status_eval)
  have c: "logs (db0\<lparr>uids := [uidA\<lparr>d_status := ''expired''\<rparr>, uidB, uidK]\<rparr>) = []"
    by (simp add: db0_def)
  have d: "delete_api_uids env0 svc_ok sess_admin ''d1'' db0
       = (\<lparr>status = 200, body = Success\<rparr>,
          db0\<lparr>uids := [uidB, uidK],
              logs := [\<lparr>a_userId = ''u0'', a_action = ''delete_uid'',
                        a_details = DeletedUid ''ABC123'' ''u1'', a_createdAt = 1700000200001\<rparr>]\<rparr>,
          [Remove_uid_api ''ABC123''])"
    by (simp add: delete_eval)
  have e: "patch_api_uids env0 sess_alice ''d1'' ''expired'' db0
       = (\<lparr>status = 200, body = Success\<rparr>,
          db0\<lparr>uids := [uidA\<lparr>d_status := ''expired''\<rparr>, uidB, uidK],
              logs := [\<lparr>a_userId = ''u1'', a_action = ''update_uid'',
                        a_details = UpdatedStatus ''ABC123'' ''expired'',
                        a_createdAt = 1700000200001\<rparr>]\<rparr>, [])"
    by (simp add: status_eval)
  show ?thesis using a b c d e by (intro conjI)
qed

section \<open>Credits are binary numbers rounded to two decimals\<close>

lemma getUser_update_credits_log:
  "getUser (logActivity e (updateUserCredits s i n) a b c) i
     = map_option (\<lambda>x. x\<lparr>u_credits := parseFloat n\<rparr>) (getUser s i)"
  unfolding getUser_def logActivity_def updateUserCredits_def
  by (simp add: find_update_first_same)

lemma patch_api_users_credits_new_balance:
  assumes "patch_api_users_credits e own i amount operation s = (resp, s', calls)"
    and "status resp = 200" and "getUser s i = Some usr"
  shows "map_option u_credits (getUser s' i)
           = Some (parseFloat (toFixed2 (if operation = Add then fl (u_credits usr + amount)
                                         else fl (u_credits usr - amount))))"
proof -
  let ?n = "toFixed2 (if operation = Add then fl (u_credits usr + amount)
                      else fl (u_credits usr - amount))"
  have "\<exists>a b c. s' = logActivity e (updateUserCredits s i ?n) a b c"
    using assms
    by (auto simp: patch_api_users_credits_def reply_def Let_def split: if_splits)
  then obtain a b c where "s' = logActivity e (updateUserCredits s i ?n) a b c" by blast
  then show ?thesis
    by (simp only: getUser_update_credits_log) (simp add: assms(3))
qed

lemma patch_api_users_credits_deduct_exact:
  assumes "patch_api_users_credits e own i amount Deduct s = (resp, s', calls)"
    and "status resp = 200" and "getUser s i = Some usr"
    and "u_credits usr = parseFloat c" and "amount = parseFloat a"
    and "0 \<le> a" and "a \<le> c" and "c < 2 ^ 50"
  shows "map_option u_credits (getUser s' i) = Some (parseFloat (c - a))"
  using patch_api_users_credits_new_balance [OF assms(1-3)] debit_exact [OF assms(6-8)] assms(4,5)
  by simp

lemma tier_price_bounds: "tier_price d = Some P \<Longrightarrow> 0 \<le> P \<and> P < 2 ^ 50"
  by (drule tier_price_cases) auto

lemma tier_compare_exact:
  assumes P: "tier_price d = Some P" and c: "0 \<le> c" "c < 2 ^ 50"
  shows "pricingTiers d = Some (parseFloat P)"
    and "parseFloat c < parseFloat P \<longleftrightarrow> c < P"
proof -
  have Pb: "0 \<le> P" "P < 2 ^ 50" using tier_price_bounds [OF P] by simp_all
  show "pricingTiers d = Some (parseFloat P)" using P by (simp add: pricingTiers_tier_price)
  show "parseFloat c < parseFloat P \<longleftrightarrow> c < P" by (rule parseFloat_less_iff [OF c Pb])
qed

lemma not_exact_370: "\<not> exact_decimal2 (4165829655317709 / 1125899906842624)"
  by (simp add: exact_decimal2_def)

lemma not_exact_130: "\<not> exact_decimal2 (5854679515581645 / 4503599627370496)"
  by (simp add: exact_decimal2_def)

lemmas credits_eval = patch_api_users_credits_def reply_def store_defs example_defs js_eval

lemma owner_deduct_130:
  "patch_api_users_credits env0 sess_admin ''u1'' (fl (13 / 10)) Deduct db0
     = (\<lparr>status = 200, body = CreditsUpdated 370\<rparr>,
        db0\<lparr>users := [alice\<lparr>u_credits := 4165829655317709 / 1125899906842624\<rparr>, admin, bob],
            logs := [\<lparr>a_userId = ''u0'', a_action = ''credit_deduct'',
                      a_details = CreditChanged ''Deducted'' 130 ''alice'',
                      a_createdAt = 1700000200001\<rparr>]\<rparr>, [])"
  by (simp add: credits_eval)

text \<open>
  C6 as stated fails: balances and prices are binary64 numbers. When the owner deducts 1.30
  from a balance of 5.00 the request reports \<open>3.70\<close> and the stored balance is the binary64
  number nearest to 3.70, which is no whole number of hundredths; the 72h price that a
  Create compares the balance with is the binary64 number nearest to 1.30, no whole number
  of hundredths either.
\<close>

theorem credits_exact_decimal_counterexample:
  "patch_api_users_credits env0 sess_admin ''u1'' (fl (13 / 10)) Deduct db0
     = (\<lparr>status = 200, body = CreditsUpdated 370\<rparr>,
        db0\<lparr>users := [alice\<lparr>u_credits := 4165829655317709 / 1125899906842624\<rparr>, admin, bob],
            logs := [\<lparr>a_userId = ''u0'', a_action = ''credit_deduct'',
                      a_details = CreditChanged ''Deducted'' 130 ''alice'',
                      a_createdAt = 1700000200001\<rparr>]\<rparr>, [])
   \<and> u_credits alice = 5
   \<and> \<not> exact_decimal2 (4165829655317709 / 1125899906842624)
   \<and> pricingTiers 72 = Some (5854679515581645 / 4503599627370496)
   \<and> \<not> exact_decimal2 (5854679515581645 / 4503599627370496)"
proof -
  have "pricingTiers 72 = Some (5854679515581645 / 4503599627370496)"
    by (simp add: pricingTiers_def js_eval)
  moreover have "u_credits alice = 5" by (simp add: alice_def)
  ultimately show ?thesis
    using owner_deduct_130 not_exact_370 not_exact_130 by (intro conjI)
qed

text \<open>
  C6 as the code has it. Balances are binary64 numbers. The insufficiency test of a Create
  compares the balance with the binary tier price and refuses before any external call; the
  owner's add and deduct compute in binary arithmetic and store the result rounded to two
  decimals (\<open>toFixed(2)\<close>, read back by \<open>parseFloat\<close>). For a two-decimal balance below
  \<open>2\<^sup>5\<^sup>0\<close> hundredths the comparison agrees with the comparison of the decimals, and the
  owner's deduct of a two-decimal amount stores the two-decimal difference. A balance of
  2.00 against the 168h price 2.33 is refused and stays 2.00; 5.00 minus 1.30, the 72h
  price, rounds to 3.70.
\<close>

theorem credits_are_rounded_binary:
  "(insertUidSchema_parse req = Inr u \<and> (s_isOwner sess \<or> r_userId req = s_userId sess)
      \<and> pricingTiers (r_duration req) = Some cost \<and> getUser s (r_userId req) = Some usr
      \<and> u_credits usr < cost \<longrightarrow>
      post_api_uids e svc sess req s
        = (\<lparr>status = 400, body = Error ''Insufficient credits''\<rparr>, s, []))
   \<and> (tier_price d = Some P \<and> 0 \<le> c \<and> c < 2 ^ 50 \<longrightarrow>
        pricingTiers d = Some (parseFloat P)
        \<and> (parseFloat c < parseFloat P \<longleftrightarrow> c < P))
   \<and> (patch_api_users_credits e own i amount operation s = (resp, s', calls) \<and> status resp = 200
        \<and> getUser s i = Some usr \<longrightarrow>
        map_option u_credits (getUser s' i)
          = Some (parseFloat (toFixed2 (if operation = Add then fl (u_credits usr + amount)
                                        else fl (u_credits usr - amount)))))
   \<and> (patch_api_users_credits e own i amount Deduct s = (resp, s', calls) \<and> status resp = 200
        \<and> getUser s i = Some usr \<and> u_credits usr = parseFloat c \<and> amount = parseFloat a
        \<and> 0 \<le> a \<and> a \<le> c \<and> c < 2 ^ 50 \<longrightarrow>
        map_option u_credits (getUser s' i) = Some (parseFloat (c - a)))
   \<and> post_api_uids env0 svc_ok sess_admin req168 db0
        = (\<lparr>status = 400, body = Error ''Insufficient credits''\<rparr>, db0, [])
   \<and> map_option u_credits (getUser db0 (r_userId req168)) = Some (parseFloat 200)
   \<and> pricingTiers (r_duration req168) = Some (parseFloat 233)
   \<and> pricingTiers 72 = Some (parseFloat 130)
   \<and> toFixed2 (fl (parseFloat 500 - parseFloat 130)) = 370"
proof -
  have a: "map_option u_credits (getUser db0 (r_userId req168)) = Some (parseFloat 200)"
    by (simp add: store_defs example_defs js_eval)
  have b: "pricingTiers (r_duration req168) = Some (parseFloat 233)"
    "pricingTiers 72 = Some (parseFloat 130)"
    by (simp_all add: pricingTiers_tier_price tier_price_def example_defs)
  have d: "toFixed2 (fl (parseFloat 500 - parseFloat 130)) = 370"
    using debit_exact [of 130 500] by simp
  show ?thesis
    using post_api_uids_insufficient [of req u sess cost s usr e svc]
      tier_compare_exact [of d P c]
      patch_api_users_credits_new_balance [of e own i amount operation s resp s' calls usr]
      patch_api_users_credits_deduct_exact [of e own i amount s resp s' calls usr c a]
      scenario_A a b d
    by blast
qed

theorem credits_are_rounded_binary_witness:
  "insertUidSchema_parse req168
     = Inr \<lparr>i_userId = ''u0'', i_uidValue = ''WEEK0001'', i_duration = 168\<rparr>
   \<and> r_userId req168 = s_userId sess_admin
   \<and> pricingTiers (r_duration req168) = Some (parseFloat 233)
   \<and> getUser db0 (r_userId req168) = Some admin \<and> u_credits admin < parseFloat 233
   \<and> post_api_uids env0 svc_ok sess_admin req168 db0
       = (\<lparr>status = 400, body = Error ''Insufficient credits''\<rparr>, db0, [])
   \<and> tier_price 72 = Some 130 \<and> (0::int) \<le> 500 \<and> (500::int) < 2 ^ 50
   \<and> \<not> parseFloat 500 < parseFloat 130 \<and> \<not> (500::int) < 130
   \<and> getUser db0 ''u1'' = Some alice
   \<and> status (fst (patch_api_users_credits env0 sess_admin ''u1'' (1 / 2) Add db0)) = 200
   \<and> map_option u_credits
        (getUser (fst (snd (patch_api_users_credits env0 sess_admin ''u1'' (1 / 2) Add db0))) ''u1'')
       = Some (parseFloat (toFixed2 (fl (u_credits alice + 1 / 2))))
   \<and> toFixed2 (fl (u_credits alice + 1 / 2)) = 550
   \<and> status (fst (patch_api_users_credits env0 sess_admin ''u1'' (parseFloat 130) Deduct db0)) = 200
   \<and> u_credits alice = parseFloat 500 \<and> (0::int) \<le> 130 \<and> (130::int) \<le> 500
   \<and> map_option u_credits
        (getUser (fst (snd (patch_api_users_credits env0 sess_admin ''u1'' (parseFloat 130) Deduct db0)))
           ''u1'')
       = Some (parseFloat (500 - 130))"
proof -
  have h1: "insertUidSchema_parse req168
     = Inr \<lparr>i_userId = ''u0'', i_uidValue = ''WEEK0001'', i_duration = 168\<rparr>"
    by (simp add: insertUidSchema_parse_def req168_def)
  have h2: "r_userId req168 = s_userId sess_admin" by (simp add: example_defs)
  have h3: "pricingTiers (r_duration req168) = Some (parseFloat 233)"
    by (simp add: pricingTiers_tier_price tier_price_def req168_def)
  have h4: "getUser db0 (r_userId req168) = Some admin" by (simp add: store_defs example_defs)
  have h5: "u_credits admin < parseFloat 233" by (simp add: admin_def js_eval)
  have t: "tier_price 72 = Some 130" by (simp add: tier_price_def)
  have n: "(0::int) \<le> 500" "(500::int) < 2 ^ 50" "(130::int) \<le> 500" "(0::int) \<le> 130"
    "\<not> (500::int) < 130"
    by simp_all
  obtain r2 t2 c2 where
    run2: "patch_api_users_credits env0 sess_admin ''u1'' (1 / 2) Add db0 = (r2, t2, c2)"
    by (cases "patch_api_users_credits env0 sess_admin ''u1'' (1 / 2) Add db0") auto
  have ok2: "status r2 = 200" using run2 by (auto simp: credits_eval)
  obtain r3 t3 c3 where
    run3: "patch_api_users_credits env0 sess_admin ''u1'' (parseFloat 130) Deduct db0 = (r3, t3, c3)"
    by (cases "patch_api_users_credits env0 sess_admin ''u1'' (parseFloat 130) Deduct db0") auto
  have ok3: "status r3 = 200" using run3 by (auto simp: credits_eval)
  have g2: "getUser db0 ''u1'' = Some alice" by (simp add: store_defs example_defs)
  have v: "toFixed2 (fl (u_credits alice + 1 / 2)) = 550" by (simp add: alice_def js_eval)
  have al: "u_credits alice = parseFloat 500" by (simp add: alice_def js_eval)
  note i1 = credits_are_rounded_binary [where req = req168 and sess = sess_admin and s = db0
      and e = env0 and svc = svc_ok and cost = "parseFloat 233" and usr = admin
      and u = "\<lparr>i_userId = ''u0'', i_uidValue = ''WEEK0001'', i_duration = 168\<rparr>",
      THEN conjunct1]
  note i2 = credits_are_rounded_binary [where d = 72 and P = 130 and c = 500,
      THEN conjunct2, THEN conjunct1]
  note i3 = credits_are_rounded_binary [where own = sess_admin and s = db0 and e = env0
      and i = "''u1''" and amount = "1 / 2" and operation = Add
      and resp = r2 and s' = t2 and calls = c2 and usr = alice,
      THEN conjunct2, THEN conjunct2, THEN conjunct1]
  note i4 = credits_are_rounded_binary [where own = sess_admin and s = db0 and e = env0
      and i = "''u1''" and amount = "parseFloat 130" and c = 500 and a = 130
      and resp = r3 and s' = t3 and calls = c3 and usr = alice,
      THEN conjunct2, THEN conjunct2, THEN conjunct2, THEN conjunct1]
  have w1: "post_api_uids env0 svc_ok sess_admin req168 db0
       = (\<lparr>status = 400, body = Error ''Insufficient credits''\<rparr>, db0, [])"
    using i1 h1 h2 h3 h4 h5 by simp
  have w2: "\<not> parseFloat 500 < parseFloat 130"
    using i2 t n by simp
  have w3: "map_option u_credits (getUser t2 ''u1'')
       = Some (parseFloat (toFixed2 (fl (u_credits alice + 1 / 2))))"
    using i3 run2 ok2 g2 by simp
  have w4: "map_option u_credits (getUser t3 ''u1'') = Some (parseFloat (500 - 130))"
    using i4 run3 ok3 g2 al n by simp
  show ?thesis
    using h1 h2 h3 h4 h5 w1 t n w2 g2 run2 ok2 w3 v run3 ok3 al w4 by simp
qed

end
